theory Spec2Isabelle
  imports Main
begin

section \<open>JavaScript strings and numbers\<close>

text \<open>
  The sources are TypeScript. A JavaScript string is modelled as a \<open>string\<close> (a list of
  8-bit characters), an index as an \<open>int\<close> because \<open>indexOf\<close> and \<open>lastIndexOf\<close> answer
  \<open>-1\<close> when nothing is found. The operations below clamp their arguments as the
  language does, so that they are total as in JavaScript.
\<close>

definition indexOf :: "string \<Rightarrow> char \<Rightarrow> nat \<Rightarrow> int" where
  \<comment> \<open>\<open>s.indexOf(c, k)\<close>: the first position at or after \<open>k\<close> that holds \<open>c\<close>.\<close>
  "indexOf s c k =
     (let r = drop k s
      in if c \<in> set r then int (k + length (takeWhile (\<lambda>x. x \<noteq> c) r)) else - 1)"

definition lastIndexOf :: "string \<Rightarrow> char \<Rightarrow> int \<Rightarrow> int" where
  \<comment> \<open>\<open>s.lastIndexOf(c, p)\<close>: the last position at or before \<open>p\<close> that holds \<open>c\<close>;
      a negative \<open>p\<close> counts as 0.\<close>
  "lastIndexOf s c p =
     (let r = take (nat (max p 0) + 1) s
      in if c \<in> set r
         then int (length r) - 1 - int (length (takeWhile (\<lambda>x. x \<noteq> c) (rev r)))
         else - 1)"

definition substring :: "string \<Rightarrow> int \<Rightarrow> int \<Rightarrow> string" where
  \<comment> \<open>\<open>s.substring(a, b)\<close>: both ends clamped to \<open>0..length\<close>, swapped when \<open>a > b\<close>.\<close>
  "substring s a b =
     (let n = int (length s);
          a' = min (max a 0) n;
          b' = min (max b 0) n;
          lo = min a' b';
          hi = max a' b'
      in take (nat (hi - lo)) (drop (nat lo) s))"

definition substr :: "string \<Rightarrow> int \<Rightarrow> string" where
  \<comment> \<open>\<open>s.substr(start)\<close>: a negative start counts from the end.\<close>
  "substr s start =
     (let n = int (length s);
          from = (if start < 0 then max (n + start) 0 else min start n)
      in drop (nat from) s)"

definition startsWith :: "string \<Rightarrow> string \<Rightarrow> bool" where
  "startsWith s p = (take (length p) s = p)"

fun str_split :: "string \<Rightarrow> char \<Rightarrow> string list" where
  \<comment> \<open>\<open>s.split(c)\<close> for a one-character separator; the empty string gives one empty part.\<close>
  "str_split [] c = [[]]"
| "str_split (x # xs) c =
     (if x = c then [] # str_split xs c
      else (case str_split xs c of
              [] \<Rightarrow> [[x]]
            | w # ws \<Rightarrow> (x # w) # ws))"

fun join :: "string option list \<Rightarrow> string \<Rightarrow> string" where
  \<comment> \<open>\<open>Array.prototype.join\<close>: an \<open>undefined\<close> element is written as the empty string.\<close>
  "join [] sep = []"
| "join [x] sep = (case x of None \<Rightarrow> [] | Some s \<Rightarrow> s)"
| "join (x # y # ys) sep = (case x of None \<Rightarrow> [] | Some s \<Rightarrow> s) @ sep @ join (y # ys) sep"

definition element :: "'a list \<Rightarrow> nat \<Rightarrow> 'a option" where
  \<comment> \<open>An array element read by destructuring: \<open>undefined\<close> past the end.\<close>
  "element xs i = (if i < length xs then Some (xs ! i) else None)"

definition template :: "string option \<Rightarrow> string" where
  \<comment> \<open>A value inside a template literal.\<close>
  "template v = (case v of None \<Rightarrow> ''undefined'' | Some s \<Rightarrow> s)"

definition truthy :: "string option \<Rightarrow> bool" where
  \<comment> \<open>\<open>if (s)\<close> for an optional string: neither \<open>undefined\<close> nor empty.\<close>
  "truthy v = (case v of None \<Rightarrow> False | Some s \<Rightarrow> s \<noteq> [])"

definition isDigit :: "char \<Rightarrow> bool" where
  "isDigit c = (48 \<le> (of_char c :: nat) \<and> (of_char c :: nat) \<le> 57)"

definition digitsValue :: "string \<Rightarrow> nat" where
  "digitsValue s = foldl (\<lambda>a c. 10 * a + ((of_char c :: nat) - 48)) 0 s"

text \<open>
  A JavaScript number is an IEEE double. An integer up to \<open>2^53\<close> is held exactly
  (\<open>Exact\<close>); a larger decimal string is read as the nearest double, whose digits are
  not modelled (\<open>Rounded\<close> keeps the mathematical value that was rounded).
\<close>

datatype number = Exact nat | Rounded nat

definition parseInt10 :: "string \<Rightarrow> number" where
  \<comment> \<open>\<open>parseInt(s, 10)\<close> on a non-empty string of decimal digits.\<close>
  "parseInt10 s = (let n = digitsValue s in if n \<le> 2 ^ 53 then Exact n else Rounded n)"

fun decimal :: "nat \<Rightarrow> string" where
  \<comment> \<open>A line index inside a template literal: its decimal digits (as JavaScript prints
      an integer below \<open>10^21\<close>).\<close>
  "decimal n =
     (if n < 10 then [char_of (48 + n)]
      else decimal (n div 10) @ [char_of (48 + n mod 10)])"

section \<open>The Gerrit remote provider (src/git/remotes/gerrit.ts)\<close>

subsection \<open>The two regular expressions\<close>

definition lineTerminator :: "char \<Rightarrow> bool" where
  \<comment> \<open>The characters \<open>.\<close> does not match, among the 8-bit ones: LF and CR.\<close>
  "lineTerminator c = ((of_char c :: nat) = 10 \<or> (of_char c :: nat) = 13)"

definition fileRegex_exec :: "string \<Rightarrow> (string \<times> string) option" where
  \<comment> \<open>\<open>/^\/([^/]+)\/\+(.+)$/i\<close>: the two groups of a match.\<close>
  "fileRegex_exec s =
     (case s of
        [] \<Rightarrow> None
      | c # t \<Rightarrow>
          if c \<noteq> CHR ''/'' then None
          else let project = takeWhile (\<lambda>x. x \<noteq> CHR ''/'') t;
                   r = dropWhile (\<lambda>x. x \<noteq> CHR ''/'') t;
                   rest = drop 2 r
               in if project \<noteq> [] \<and> take 2 r = ''/+'' \<and> rest \<noteq> []
                     \<and> \<not> list_ex lineTerminator rest
                  then Some (project, rest) else None)"

definition rangeRegex_exec :: "string \<Rightarrow> string option" where
  \<comment> \<open>\<open>/^(\d+)$/\<close>: the group of a match.\<close>
  "rangeRegex_exec s = (if s \<noteq> [] \<and> list_all isDigit s then Some s else None)"

subsection \<open>Data\<close>

datatype error = ServiceFailure

record Uri =
  authority :: string
  uri_path :: string
  fragment :: string

text \<open>
  \<open>getNameWithoutRemote()\<close> is a method of the branch model, which is not part of these
  sources: a branch carries the method's result as a field.
\<close>

record GitBranch =
  branch_name :: string
  remote :: bool
  getNameWithoutRemote :: string

record GitTag =
  tag_name :: string

text \<open>
  The repository service. \<open>getBranches\<close> and \<open>getTags\<close> are awaited and may fail;
  \<open>toAbsoluteUri\<close> receives the path and the \<open>validate\<close> option as given
  (\<open>None\<close> when absent).
\<close>

record Repository =
  getBranches :: "(GitBranch \<Rightarrow> bool) \<Rightarrow> error + GitBranch list"
  getTags :: "error + GitTag list"
  toAbsoluteUri :: "string \<Rightarrow> bool option \<Rightarrow> string option"

text \<open>
  The provider. \<open>baseUrl\<close>, \<open>encodeUrl\<close> and \<open>name\<close> are members of the base class
  \<open>RemoteProvider\<close>, which is not part of these sources: they are fields here.
\<close>

record GerritRemote =
  domain :: string
  path :: string
  protocol :: string
  name :: string
  baseUrl :: string
  encodeUrl :: "string \<Rightarrow> string"

record Location =
  uri :: string
  startLine :: "number option"

record AutolinkReference =
  prefix :: string
  url :: string
  title :: string
  alphanumeric :: bool

text \<open>
  The editor's range: of it the code reads \<open>range.start.line\<close>, a line index counted
  from 0.
\<close>

record Range =
  start_line :: nat

subsection \<open>The review domain and the URL builders\<close>

definition reviewDomain :: "GerritRemote \<Rightarrow> string" where
  "reviewDomain this =
     (let parts = str_split (domain this) CHR ''.'';
          subdomain = element parts 0;
          secondLevelDomain = element parts 1;
          topLevelDomain = element parts 2
      in join [Some (template subdomain @ ''-review''), secondLevelDomain, topLevelDomain] ''.'')"

definition baseReviewUrl :: "GerritRemote \<Rightarrow> string" where
  "baseReviewUrl this = protocol this @ ''://'' @ reviewDomain this"

definition autolinks :: "GerritRemote \<Rightarrow> AutolinkReference list" where
  "autolinks this =
     [\<lparr> prefix = ''Change-Id: '',
        url = baseReviewUrl this @ ''/q/<num>'',
        title = ''Open Change #<num> on '' @ name this,
        alphanumeric = True \<rparr>]"

definition getUrlForBranches :: "GerritRemote \<Rightarrow> string" where
  "getUrlForBranches this =
     encodeUrl this (baseReviewUrl this @ ''/admin/repos/'' @ path this @ '',branches'')"

definition getUrlForBranch :: "GerritRemote \<Rightarrow> string \<Rightarrow> string" where
  "getUrlForBranch this branch = encodeUrl this (baseUrl this @ ''/+/refs/heads/'' @ branch)"

definition getUrlForCommit :: "GerritRemote \<Rightarrow> string \<Rightarrow> string" where
  "getUrlForCommit this sha = encodeUrl this (baseReviewUrl this @ ''/q/'' @ sha)"

definition getUrlForFile ::
  "GerritRemote \<Rightarrow> string \<Rightarrow> string option \<Rightarrow> string option \<Rightarrow> Range option \<Rightarrow> string" where
  "getUrlForFile this fileName branch sha rng =
     (let line = (case rng of None \<Rightarrow> [] | Some r \<Rightarrow> ''#'' @ decimal (start_line r))
      in if truthy sha
         then encodeUrl this (baseUrl this @ ''/+/'' @ the sha @ ''/'' @ fileName) @ line
         else if truthy branch
         then encodeUrl this (getUrlForBranch this (the branch) @ ''/'' @ fileName) @ line
         else encodeUrl this (baseUrl this @ ''/+/HEAD/'' @ fileName) @ line)"

subsection \<open>Resolving an incoming URL\<close>

text \<open>
  The \<open>do ... while (index > 0)\<close> loop over the candidate split points of a path that
  follows \<open>/refs/heads/\<close> or \<open>/refs/tags/\<close>. \<open>names\<close> is the content of the
  \<open>Set\<close> of known names, \<open>index\<close> the value the variable has when the loop is entered.
  The result is the local URI the loop returns with, or \<open>None\<close> when it runs out.
\<close>

function scan :: "Repository \<Rightarrow> bool option \<Rightarrow> string list \<Rightarrow> string \<Rightarrow> int \<Rightarrow> string option" where
  "scan repository validate names refPath index =
     (let index' = lastIndexOf refPath CHR ''/'' (index - 1);
          ref = substring refPath 0 index';
          found = (if ref \<in> set names
                   then toAbsoluteUri repository (substr refPath index') validate
                   else None)
      in case found of
           Some u \<Rightarrow> Some u
         | None \<Rightarrow> if index' > 0 then scan repository validate names refPath index' else None)"
  by pat_completeness auto
termination
proof (relation "measure (\<lambda>(repository, validate, names, refPath, index). nat index)")
  show "wf (measure (\<lambda>(repository, validate, names, refPath, index). nat index))"
    by simp
next
  fix repository :: Repository and validate :: "bool option" and names :: "string list"
    and refPath :: string and index index' :: int
  assume "index' = lastIndexOf refPath CHR ''/'' (index - 1)" and "0 < index'"
  moreover have "int (length (take (nat (max (index - 1) 0) + 1) refPath)) \<le> max (index - 1) 0 + 1"
    by simp
  then have "lastIndexOf refPath CHR ''/'' (index - 1) \<le> max (index - 1) 0"
    by (simp add: lastIndexOf_def Let_def)
  ultimately have "index' < index"
    by linarith
  with \<open>0 < index'\<close>
  show "((repository, validate, names, refPath, index'), (repository, validate, names, refPath, index))
        \<in> measure (\<lambda>(repository, validate, names, refPath, index). nat index)"
    by simp
qed

definition startLineOf :: "Uri \<Rightarrow> number option" where
  \<comment> \<open>Lines 61 to 70: the line the fragment names.\<close>
  "startLineOf u =
     (if fragment u \<noteq> []
      then (case rangeRegex_exec (fragment u) of
              None \<Rightarrow> None
            | Some start \<Rightarrow> if start \<noteq> [] then Some (parseInt10 start) else None)
      else None)"

definition permalink :: "(string \<Rightarrow> bool) \<Rightarrow> Repository \<Rightarrow> bool option \<Rightarrow> string \<Rightarrow> int \<Rightarrow> string option" where
  \<comment> \<open>Lines 79 to 85: the check for a permalink, \<open>index\<close> being \<open>path.indexOf('/', 1)\<close>.\<close>
  "permalink isSha repository validate p index =
     (if index \<noteq> - 1
      then (let sha = substring p 1 index
            in if isSha sha \<or> sha = ''HEAD''
               then toAbsoluteUri repository (substr p index) validate
               else None)
      else None)"

text \<open>
  \<open>isSha\<close> is \<open>GitRevision.isSha\<close>, which is not part of these sources: a parameter.
  \<open>validate\<close> is \<open>options?.validate\<close>. The result is \<open>Inl\<close> when an awaited
  service call fails, \<open>Inr None\<close> for \<open>undefined\<close>.
\<close>

definition getLocalInfoFromRemoteUri ::
  "(string \<Rightarrow> bool) \<Rightarrow> GerritRemote \<Rightarrow> Repository \<Rightarrow> Uri \<Rightarrow> bool option \<Rightarrow> error + Location option" where
  "getLocalInfoFromRemoteUri isSha this repository u validate =
     (if authority u \<noteq> domain this then Inr None
      else if (case validate of None \<Rightarrow> True | Some v \<Rightarrow> v)
              \<and> \<not> startsWith (uri_path u) (''/'' @ path this @ ''/'') then Inr None
      else
        (let startLine = startLineOf u
         in (case fileRegex_exec (uri_path u) of
               None \<Rightarrow> Inr None
             | Some (project, p) \<Rightarrow>
                 (let index = indexOf p CHR ''/'' 1
                  in (case permalink isSha repository validate p index of
                        Some l \<Rightarrow> Inr (Some \<lparr> uri = l, startLine = startLine \<rparr>)
                      | None \<Rightarrow>
                          (if startsWith p ''/refs/heads/''
                           then (case getBranches repository remote of
                                   Inl e \<Rightarrow> Inl e
                                 | Inr bs \<Rightarrow>
                                     (let branches = map getNameWithoutRemote bs;
                                          branchPath = substr p (int (length ''/refs/heads/''))
                                      in Inr (map_option (\<lambda>l. \<lparr> uri = l, startLine = startLine \<rparr>)
                                               (scan repository validate branches branchPath index))))
                           else if startsWith p ''/refs/tags/''
                           then (case getTags repository of
                                   Inl e \<Rightarrow> Inl e
                                 | Inr ts \<Rightarrow>
                                     (let tags = map tag_name ts;
                                          tagPath = substr p (int (length ''/refs/tags/''))
                                      in Inr (map_option (\<lambda>l. \<lparr> uri = l, startLine = startLine \<rparr>)
                                               (scan repository validate tags tagPath index))))
                           else Inr None))))))"

section \<open>The remote provider picker (src/quickpicks/remoteProviderPicker.ts)\<close>

subsection \<open>Remote resources and the object store\<close>

text \<open>
  Modelled from the spec: the remote resource, a tagged variant whose declaration
  (\<open>RemoteResource\<close> in git/git) is not part of these sources. The variants and fields
  are those the picker reads and writes; \<open>Revision\<close> lists the properties of the object
  that \<open>{ ...resource, type: Revision, sha }\<close> builds from a file resource.
\<close>

record PullRequestRemote =
  pr_path :: string
  pr_url :: string

record PullRequestBase =
  base_branch :: "string option"
  base_remote :: PullRequestRemote

record PullRequestCompare =
  compare_branch :: string
  compare_remote :: PullRequestRemote

datatype RemoteResource =
    Branch string
  | Commit string
  | Tag string
  | Comparison (res_base: string) (res_compare: string)
  | CreatePullRequest (pr_base: PullRequestBase) (pr_compare: PullRequestCompare)
  | File (res_branchOrTag: "string option") (res_fileName: string) (res_range: "Range option")
  | Revision (res_branchOrTag: "string option") (res_fileName: string) (res_range: "Range option")
      (res_sha: "string option")

text \<open>
  Resources are JavaScript objects, passed by reference and shared by all the items of one
  picker. The store maps a reference to the object it points to; \<open>next_ref\<close> is the
  first reference not yet handed out. An object spread allocates a new object.
\<close>

type_synonym ref = nat

record Store =
  objects :: "ref \<Rightarrow> RemoteResource"
  next_ref :: ref

definition alloc :: "Store \<Rightarrow> RemoteResource \<Rightarrow> ref \<times> Store" where
  "alloc s v = (next_ref s, s\<lparr> objects := (objects s)(next_ref s := v), next_ref := Suc (next_ref s) \<rparr>)"

subsection \<open>Remotes, services and items\<close>

text \<open>
  \<open>getDefaultBranch\<close> is an optional method (\<open>None\<close> when the provider has none); awaited,
  it may fail or answer \<open>undefined\<close>, else the name of the default branch.
\<close>

record RemoteProvider =
  provider_id :: string
  provider_path :: string
  hasApi :: bool
  getDefaultBranch :: "(error + string option) option"

record GitRemote =
  remote_name :: string
  remote_path :: string
  remote_url :: string
  repoPath :: string
  default :: bool
  provider :: RemoteProvider

record GitReference =
  ref_name :: string
  ref_sha :: "string option"

text \<open>
  The collaborators of \<open>execute\<close>, none of them part of these sources: the static
  helpers \<open>GitBranch.getRemote\<close> and \<open>GitBranch.getNameWithoutRemote\<close>, and the two
  awaited calls of \<open>Container.git\<close>, which may fail. \<open>getBranchesAndOrTags\<close> receives
  the repository path and the two filters, and answers a list or \<open>undefined\<close>.
\<close>

record Git =
  getRemote :: "string \<Rightarrow> string"
  getNameWithoutRemoteOf :: "string \<Rightarrow> string"
  getDefaultBranchName :: "string \<Rightarrow> string \<Rightarrow> error + string option"
  getBranchesAndOrTags ::
    "string \<Rightarrow> (GitReference \<Rightarrow> bool) \<Rightarrow> (GitReference \<Rightarrow> bool) \<Rightarrow> error + GitReference list option"

datatype QuickInputButton = SetRemoteAsDefault

datatype QuickPickItem =
    ConfigureCustomRemoteProviderCommandQuickPickItem
  | CopyOrOpenRemoteCommandQuickPickItem (item_remote: GitRemote) (item_resource: ref)
      (item_clipboard: "bool option") (item_buttons: "QuickInputButton list option")

fun label :: "QuickPickItem \<Rightarrow> string" where
  "label ConfigureCustomRemoteProviderCommandQuickPickItem =
     ''See how to configure a custom remote provider...''"
| "label (CopyOrOpenRemoteCommandQuickPickItem r res c b) = ''$(repo) '' @ provider_path (provider r)"

text \<open>What an activated item finally does: the call that ends \<open>execute\<close>.\<close>

datatype Action =
    OpenExternal string
  | ProviderCopy GitRemote ref
  | ProviderOpen GitRemote ref

subsection \<open>Activating an item\<close>

definition resolveBaseBranch :: "Git \<Rightarrow> GitRemote \<Rightarrow> PullRequestBase \<Rightarrow> error + string option" where
  \<comment> \<open>Lines 54 to 61: the base branch of a pull request.\<close>
  "resolveBaseBranch git r b =
     (case base_branch b of
        Some br \<Rightarrow> Inr (Some br)
      | None \<Rightarrow>
          (case getDefaultBranchName git (repoPath r) (remote_name r) of
             Inl e \<Rightarrow> Inl e
           | Inr (Some br) \<Rightarrow> Inr (Some br)
           | Inr None \<Rightarrow>
               if hasApi (provider r)
               then (case getDefaultBranch (provider r) of
                       None \<Rightarrow> Inr None
                     | Some (Inl e) \<Rightarrow> Inl e
                     | Some (Inr defaultBranch) \<Rightarrow> Inr defaultBranch)
               else Inr None))"

definition firstSha :: "GitReference list option \<Rightarrow> string option" where
  \<comment> \<open>\<open>branchesOrTags?.[0]?.sha\<close>\<close>
  "firstSha branchesOrTags =
     (case branchesOrTags of
        None \<Rightarrow> None
      | Some [] \<Rightarrow> None
      | Some (x # xs) \<Rightarrow> ref_sha x)"

definition copyOrOpen :: "bool option \<Rightarrow> GitRemote \<Rightarrow> ref \<Rightarrow> Action" where
  \<comment> \<open>Line 89: \<open>this.clipboard ? provider.copy(resource) : provider.open(resource)\<close>\<close>
  "copyOrOpen c r res = (if c = Some True then ProviderCopy r res else ProviderOpen r res)"

text \<open>
  \<open>execute\<close> takes the store and returns it with the objects it has allocated. The
  result is \<open>Inl\<close> when an awaited service call fails, else the final call.
\<close>

fun execute :: "Git \<Rightarrow> QuickPickItem \<Rightarrow> Store \<Rightarrow> (error + Action) \<times> Store" where
  "execute git ConfigureCustomRemoteProviderCommandQuickPickItem s =
     (Inr (OpenExternal ''https://github.com/eamodio/vscode-gitlens#remote-provider-integration-settings-''), s)"
| "execute git (CopyOrOpenRemoteCommandQuickPickItem r res c b) s =
     (case objects s res of
        Comparison ba co \<Rightarrow>
          (let (res1, s1) =
                 (if getRemote git ba = remote_name r
                  then alloc s (Comparison (getNameWithoutRemoteOf git ba) co)
                  else (res, s));
               (res2, s2) =
                 (if getRemote git (res_compare (objects s1 res1)) = remote_name r
                  then alloc s1 (Comparison (res_base (objects s1 res1))
                                   (getNameWithoutRemoteOf git (res_compare (objects s1 res1))))
                  else (res1, s1))
           in (Inr (copyOrOpen c r res2), s2))
      | CreatePullRequest pb pc \<Rightarrow>
          (case resolveBaseBranch git r pb of
             Inl e \<Rightarrow> (Inl e, s)
           | Inr branch \<Rightarrow>
               (let (res1, s1) =
                      alloc s (CreatePullRequest
                                 \<lparr> base_branch = branch,
                                   base_remote = \<lparr> pr_path = remote_path r, pr_url = remote_url r \<rparr> \<rparr>
                                 pc)
                in (Inr (copyOrOpen c r res1), s1)))
      | File bt f rg \<Rightarrow>
          (if bt \<noteq> None \<and> (provider_id (provider r) = ''bitbucket''
                         \<or> provider_id (provider r) = ''bitbucket-server'')
           then (case getBranchesAndOrTags git (repoPath r)
                        (\<lambda>b. Some (ref_name b) = bt \<or> Some (getNameWithoutRemoteOf git (ref_name b)) = bt)
                        (\<lambda>b. Some (ref_name b) = bt) of
                   Inl e \<Rightarrow> (Inl e, s)
                 | Inr branchesOrTags \<Rightarrow>
                     (if truthy (firstSha branchesOrTags)
                      then (let (res1, s1) = alloc s (Revision bt f rg (firstSha branchesOrTags))
                            in (Inr (copyOrOpen c r res1), s1))
                      else (Inr (copyOrOpen c r res), s)))
           else (Inr (copyOrOpen c r res), s))
      | _ \<Rightarrow> (Inr (copyOrOpen c r res), s))"

subsection \<open>Showing the picker\<close>

text \<open>
  A property of the \<open>options\<close> object is absent, present with the value
  \<open>undefined\<close>, or given; the spread \<open>{ autoPick: false, clipboard: false,
  setDefault: true, ...options }\<close> keeps a default only where the property is absent.
\<close>

datatype 'a property = Absent | Undefined | Given 'a

datatype AutoPick = Default | Pick bool

record Options =
  autoPick :: "AutoPick property"
  clipboard :: "bool property"
  setDefault :: "bool property"

definition spread :: "'a \<Rightarrow> 'a property \<Rightarrow> 'a option" where
  "spread d p = (case p of Absent \<Rightarrow> Some d | Undefined \<Rightarrow> None | Given v \<Rightarrow> Some v)"

definition noOptions :: Options where
  \<comment> \<open>What spreading an absent \<open>options\<close> contributes: nothing.\<close>
  "noOptions = \<lparr> autoPick = Absent, clipboard = Absent, setDefault = Absent \<rparr>"

record QuickPick =
  qp_title :: string
  qp_placeholder :: string
  qp_items :: "QuickPickItem list"

text \<open>
  \<open>RemoteProviderPicker.show\<close> either returns an item at once (\<open>Resolved\<close>, line 182) or creates the quick
  pick and waits for the user (\<open>Presenting\<close>, lines 184 to 220).
\<close>

datatype ShowResult = Resolved "QuickPickItem option" | Presenting QuickPick

definition RemoteProviderPicker_show :: "string \<Rightarrow> string \<Rightarrow> ref \<Rightarrow> GitRemote list \<Rightarrow> Options option \<Rightarrow> ShowResult" where
  "RemoteProviderPicker_show ttl placeHolder res remotes options =
     (let opts = (case options of None \<Rightarrow> noOptions | Some given \<Rightarrow> given);
          autoPick' = spread (Pick False) (autoPick opts);
          clipboard' = spread False (clipboard opts);
          setDefault' = spread True (setDefault opts);
          (items, placeHolder', remotes') =
            (if length remotes = 0
             then ([ConfigureCustomRemoteProviderCommandQuickPickItem],
                   ''No auto-detected or configured remote providers found'', remotes)
             else
               (let remotes1 =
                      (if autoPick' = Some Default \<and> length remotes > 1
                       then (case find default remotes of
                               Some r \<Rightarrow> [r]
                             | None \<Rightarrow> remotes)
                       else remotes)
                in (map (\<lambda>r. CopyOrOpenRemoteCommandQuickPickItem r res clipboard'
                                (if setDefault' = Some True then Some [SetRemoteAsDefault] else None))
                      remotes1,
                    placeHolder, remotes1)))
      in if (autoPick' = Some Default \<or> autoPick' = Some (Pick True)) \<and> length remotes' = 1
         then Resolved (case items of [] \<Rightarrow> None | x # xs \<Rightarrow> Some x)
         else Presenting \<lparr> qp_title = ttl, qp_placeholder = placeHolder', qp_items = items \<rparr>)"


section \<open>What the specification says, for comparison with the code\<close>

definition reviewDomainSpec :: "string \<Rightarrow> string" where
  \<comment> \<open>The configured domain with \<open>-review\<close> added to its first dot-separated label, all
      remaining labels unchanged.\<close>
  "reviewDomainSpec d =
     (case str_split d CHR ''.'' of
        [] \<Rightarrow> ''-review''
      | l # ls \<Rightarrow> join (map Some ((l @ ''-review'') # ls)) ''.'')"

definition fileUrlForm :: "string \<Rightarrow> string \<Rightarrow> string \<Rightarrow> string" where
  \<comment> \<open>The form \<open><browseBase>/+/<ref>/<path>\<close> of a file URL.\<close>
  "fileUrlForm browseBase ref p = browseBase @ ''/+/'' @ ref @ ''/'' @ p"

definition matchesPermalinkPattern :: "string \<Rightarrow> bool" where
  \<comment> \<open>The pattern \<open>/<project>/+/<rest>\<close>: one project segment, then the separator
      \<open>/+/\<close>.\<close>
  "matchesPermalinkPattern p =
     (case p of
        [] \<Rightarrow> False
      | c # t \<Rightarrow>
          c = CHR ''/'' \<and> takeWhile (\<lambda>x. x \<noteq> CHR ''/'') t \<noteq> []
          \<and> take 3 (dropWhile (\<lambda>x. x \<noteq> CHR ''/'') t) = ''/+/'')"

definition resolvesAsCommit :: "(string \<Rightarrow> bool) \<Rightarrow> Repository \<Rightarrow> bool option \<Rightarrow> string \<Rightarrow> bool" where
  \<comment> \<open>The first path segment of \<open>rest\<close> (after its first character) is a commit id or
      \<open>HEAD\<close>, and the repository turns the remaining segments into a local location.\<close>
  "resolvesAsCommit isSha repository validate rest =
     (let segment = takeWhile (\<lambda>x. x \<noteq> CHR ''/'') (drop 1 rest);
          file = dropWhile (\<lambda>x. x \<noteq> CHR ''/'') (drop 1 rest)
      in file \<noteq> [] \<and> (isSha segment \<or> segment = ''HEAD'')
         \<and> toAbsoluteUri repository file validate \<noteq> None)"

definition resolvesAsRef :: "Repository \<Rightarrow> bool option \<Rightarrow> string list \<Rightarrow> string \<Rightarrow> bool" where
  \<comment> \<open>Some \<open>/\<close> of \<open>refPath\<close> splits it into a known name and a file path that the
      repository turns into a local location.\<close>
  "resolvesAsRef repository validate names refPath =
     list_ex (\<lambda>i. refPath ! i = CHR ''/'' \<and> take i refPath \<in> set names
                  \<and> toAbsoluteUri repository (drop i refPath) validate \<noteq> None)
       [0..<length refPath]"

definition interpretationResolves ::
  "(string \<Rightarrow> bool) \<Rightarrow> Repository \<Rightarrow> bool option \<Rightarrow> string list \<Rightarrow> string list \<Rightarrow> string \<Rightarrow> bool" where
  \<comment> \<open>A commit, branch or tag interpretation of \<open>rest\<close> resolves.\<close>
  "interpretationResolves isSha repository validate branches tags rest =
     (resolvesAsCommit isSha repository validate rest
      \<or> (startsWith rest ''/refs/heads/''
          \<and> resolvesAsRef repository validate branches (drop 12 rest))
      \<or> (startsWith rest ''/refs/tags/''
          \<and> resolvesAsRef repository validate tags (drop 11 rest)))"

definition passed :: "(error + Action) \<times> Store \<Rightarrow> error + RemoteResource option" where
  \<comment> \<open>The resource object that the final provider call of an activation receives.\<close>
  "passed outcome =
     (case outcome of
        (Inl e, s) \<Rightarrow> Inl e
      | (Inr (OpenExternal u), s) \<Rightarrow> Inr None
      | (Inr (ProviderCopy r a), s) \<Rightarrow> Inr (Some (objects s a))
      | (Inr (ProviderOpen r a), s) \<Rightarrow> Inr (Some (objects s a)))"

section \<open>Concrete inputs\<close>

definition isSha40 :: "string \<Rightarrow> bool" where
  \<comment> \<open>A commit id of 40 lower-case hexadecimal digits, for \<open>isSha\<close>.\<close>
  "isSha40 s = (length s = 40 \<and> list_all (\<lambda>c. c \<in> set ''0123456789abcdef'') s)"

definition exampleRemote :: GerritRemote where
  \<comment> \<open>A provider whose \<open>encodeUrl\<close> finds nothing to escape.\<close>
  "exampleRemote =
     \<lparr> domain = ''foo.example.com'', path = ''proj'', protocol = ''https'', name = ''Gerrit'',
       baseUrl = ''https://foo.example.com/proj'', encodeUrl = (\<lambda>s. s) \<rparr>"

definition exampleRepository :: "string list \<Rightarrow> string list \<Rightarrow> Repository" where
  \<comment> \<open>A repository with the given remote branches (of the remote \<open>origin\<close>) and tags,
      in which every file path exists.\<close>
  "exampleRepository bs ts =
     \<lparr> getBranches =
         (\<lambda>f. Inr (filter f
                 (map (\<lambda>b. \<lparr> branch_name = ''origin/'' @ b, remote = True,
                              getNameWithoutRemote = b \<rparr>) bs))),
       getTags = Inr (map (\<lambda>t. \<lparr> tag_name = t \<rparr>) ts),
       toAbsoluteUri = (\<lambda>p v. Some (''file:///repo'' @ p)) \<rparr>"

definition exampleSha :: string where
  "exampleSha = ''0123456789abcdef0123456789abcdef01234567''"

definition exampleGit :: Git where
  \<comment> \<open>The remote of a branch name is what stands before its first \<open>/\<close>; the repository
      has the branch \<open>origin/release\<close> at the example commit.\<close>
  "exampleGit =
     \<lparr> getRemote = (\<lambda>n. substring n 0 (indexOf n CHR ''/'' 0)),
       getNameWithoutRemoteOf = (\<lambda>n. substr n (indexOf n CHR ''/'' 0 + 1)),
       getDefaultBranchName = (\<lambda>p n. Inr (Some ''main'')),
       getBranchesAndOrTags =
         (\<lambda>p branches tags.
            Inr (Some (filter branches [\<lparr> ref_name = ''origin/release'', ref_sha = Some exampleSha \<rparr>]))) \<rparr>"

definition exampleGitRemote :: "string \<Rightarrow> bool \<Rightarrow> string \<Rightarrow> GitRemote" where
  "exampleGitRemote n d p =
     \<lparr> remote_name = n, remote_path = ''owner/repo'', remote_url = ''https://example.com/owner/repo'',
       repoPath = ''/work/repo'', default = d,
       provider = \<lparr> provider_id = p, provider_path = ''owner/repo'', hasApi = False,
                    getDefaultBranch = None \<rparr> \<rparr>"

definition exampleStore :: Store where
  \<comment> \<open>Reference 0 is a file of the branch \<open>release\<close>, reference 1 a comparison.\<close>
  "exampleStore =
     \<lparr> objects = (\<lambda>a. if a = 0 then File (Some ''release'') ''src/a.ts'' None
                       else Comparison ''origin/main'' ''origin/feature''),
       next_ref = 2 \<rparr>"

section \<open>The editor's URL reader\<close>

text \<open>
  The URL reader is \<open>Uri.parse\<close> of the editor, outside this repository. \<open>parseUri\<close>
  follows it on a one-line URL: the split \<open>scheme://authority/path?query#fragment\<close> of
  its regular expression, the scheme \<open>file\<close> when none is written, and for the schemes
  \<open>https\<close>, \<open>http\<close> and \<open>file\<close> a path that starts with \<open>/\<close> (the empty path is
  \<open>/\<close>). The reader then decodes percent escapes, which \<open>parseUri\<close> does not: it
  stands for the reader on URLs without \<open>%\<close>.
\<close>

definition readScheme :: "string \<Rightarrow> string \<times> string" where
  \<comment> \<open>\<open>(([^:/?#]+?):)?\<close>: the scheme (empty when none is written) and what follows.\<close>
  "readScheme s =
     (let scheme = takeWhile (\<lambda>c. c \<notin> set '':/?#'') s
      in if scheme \<noteq> [] \<and> take 1 (drop (length scheme) s) = '':''
         then (scheme, drop (length scheme + 1) s) else ([], s))"

definition readAuthority :: "string \<Rightarrow> string \<times> string" where
  \<comment> \<open>\<open>(\/\/([^/?#]*))?\<close>\<close>
  "readAuthority s =
     (if take 2 s = ''//''
      then (let auth = takeWhile (\<lambda>c. c \<notin> set ''/?#'') (drop 2 s)
            in (auth, drop (2 + length auth) s))
      else ([], s))"

definition readPath :: "string \<Rightarrow> string \<times> string" where
  \<comment> \<open>\<open>([^?#]*)\<close>\<close>
  "readPath s = (let p = takeWhile (\<lambda>c. c \<notin> set ''?#'') s in (p, drop (length p) s))"

definition readFragment :: "string \<Rightarrow> string" where
  \<comment> \<open>\<open>(\?([^#]*))?(#(.*))?\<close>: the query is passed over.\<close>
  "readFragment s =
     drop 1 (if take 1 s = ''?'' then dropWhile (\<lambda>c. c \<noteq> CHR ''#'') s else s)"

definition referenceResolution :: "string \<Rightarrow> string \<Rightarrow> string" where
  "referenceResolution scheme p =
     (if scheme = ''https'' \<or> scheme = ''http'' \<or> scheme = ''file''
      then (if take 1 p = ''/'' then p else CHR ''/'' # p)
      else p)"

definition parseUri :: "string \<Rightarrow> Uri" where
  "parseUri s =
     (let (scheme, s1) = readScheme s;
          (auth, s2) = readAuthority s1;
          (p, s3) = readPath s2
      in \<lparr> authority = auth,
           uri_path = referenceResolution (if scheme = [] then ''file'' else scheme) p,
           fragment = readFragment s3 \<rparr>)"

definition plainText :: "string \<Rightarrow> bool" where
  \<comment> \<open>A piece of a URL that is read back as it was written: no \<open>?\<close>, \<open>#\<close> or \<open>%\<close>
      and no line break.\<close>
  "plainText s = (\<not> list_ex (\<lambda>c. c \<in> set ''?#%'' \<or> lineTerminator c) s)"

section \<open>Lemmas about the resolver\<close>

declare decimal.simps [simp del]

declare scan.simps [simp del]


lemma lastIndexOf_found:
  assumes "lastIndexOf s c p \<noteq> - 1"
  shows "0 \<le> lastIndexOf s c p \<and> nat (lastIndexOf s c p) < length s
         \<and> s ! nat (lastIndexOf s c p) = c"
proof -
  define r where "r = take (nat (max p 0) + 1) s"
  define j where "j = length (takeWhile (\<lambda>x. x \<noteq> c) (rev r))"
  from assms have mem: "c \<in> set r"
    by (auto simp: lastIndexOf_def Let_def r_def split: if_splits)
  then have k: "lastIndexOf s c p = int (length r) - 1 - int j"
    by (simp add: lastIndexOf_def Let_def r_def j_def)
  from mem have "c \<in> set (rev r)" by simp
  then have "dropWhile (\<lambda>x. x \<noteq> c) (rev r) \<noteq> []"
    by (simp add: dropWhile_eq_Nil_conv)
  moreover have "length (takeWhile (\<lambda>x. x \<noteq> c) (rev r)) + length (dropWhile (\<lambda>x. x \<noteq> c) (rev r))
                 = length (rev r)"
    by (metis length_append takeWhile_dropWhile_id)
  ultimately have jlt: "j < length (rev r)"
    unfolding j_def by (cases "dropWhile (\<lambda>x. x \<noteq> c) (rev r)") auto
  then have jr: "j < length r" by simp
  have "rev r ! j = c"
    using nth_length_takeWhile [of "\<lambda>x. x \<noteq> c" "rev r"] jlt unfolding j_def by simp
  with jr have at: "r ! (length r - 1 - j) = c"
    by (simp add: rev_nth)
  from jr have nk: "nat (lastIndexOf s c p) = length r - 1 - j" and pos: "0 \<le> lastIndexOf s c p"
    using k by auto
  have "length r - 1 - j < length r" using jr by simp
  moreover have "length r \<le> length s" by (simp add: r_def)
  moreover have "r ! (length r - 1 - j) = s ! (length r - 1 - j)"
    using jr by (simp add: r_def)
  ultimately show ?thesis using at nk pos by simp
qed

lemma substring_take:
  assumes "0 \<le> k" and "nat k \<le> length s"
  shows "substring s 0 k = take (nat k) s"
proof -
  from assms have "k \<le> int (length s)" by linarith
  with assms show ?thesis
    by (simp add: substring_def Let_def min_def max_def)
qed

lemma substring_negative: "k < 0 \<Longrightarrow> substring s 0 k = []"
  by (simp add: substring_def Let_def min_def max_def)

lemma substr_drop: "0 \<le> k \<Longrightarrow> substr s k = drop (nat k) s"
  by (simp add: substr_def Let_def min_def)

lemma lastIndexOf_le: "lastIndexOf s c p \<le> max p 0"
proof -
  have "int (length (take (nat (max p 0) + 1) s)) \<le> max p 0 + 1"
    by simp
  then show ?thesis
    by (simp add: lastIndexOf_def Let_def)
qed

lemma scan_Some:
  assumes "scan repository validate names refPath index = Some l" and "[] \<notin> set names"
  shows "\<exists>i<length refPath. int i \<le> max (index - 1) 0 \<and> refPath ! i = CHR ''/''
           \<and> take i refPath \<in> set names
           \<and> toAbsoluteUri repository (drop i refPath) validate = Some l"
  using assms
proof (induction repository validate names refPath index rule: scan.induct)
  case (1 repository validate names refPath index)
  define k where "k = lastIndexOf refPath CHR ''/'' (index - 1)"
  define found where "found = (if substring refPath 0 k \<in> set names
      then toAbsoluteUri repository (substr refPath k) validate else None)"
  have kle: "k \<le> max (index - 1) 0"
    unfolding k_def by (rule lastIndexOf_le)
  have unfold: "scan repository validate names refPath index =
      (case found of Some u \<Rightarrow> Some u
       | None \<Rightarrow> if 0 < k then scan repository validate names refPath k else None)"
    unfolding k_def found_def by (subst scan.simps) (simp add: Let_def)
  show ?case
  proof (cases found)
    case (Some u)
    with "1.prems"(1) unfold have "u = l" by simp
    from Some have inn: "substring refPath 0 k \<in> set names"
      and abs: "toAbsoluteUri repository (substr refPath k) validate = Some u"
      by (auto simp: found_def split: if_splits)
    have "k \<noteq> - 1"
    proof
      assume "k = - 1"
      then have "substring refPath 0 k = []" by (simp add: substring_negative)
      with inn "1.prems"(2) show False by simp
    qed
    then have f: "0 \<le> k" "nat k < length refPath" "refPath ! nat k = CHR ''/''"
      using lastIndexOf_found [of refPath "CHR ''/''" "index - 1"] by (simp_all add: k_def)
    then have "substring refPath 0 k = take (nat k) refPath" "substr refPath k = drop (nat k) refPath"
      by (simp_all add: substring_take substr_drop)
    moreover from f kle have "int (nat k) \<le> max (index - 1) 0" by simp
    ultimately show ?thesis using inn abs f \<open>u = l\<close> by auto
  next
    case None
    with "1.prems"(1) unfold have pos: "0 < k"
      and rec: "scan repository validate names refPath k = Some l"
      by (simp_all split: if_splits)
    have "found = None \<Longrightarrow> 0 < k \<Longrightarrow> scan repository validate names refPath k = Some l \<Longrightarrow>
          [] \<notin> set names \<Longrightarrow>
          \<exists>i<length refPath. int i \<le> max (k - 1) 0 \<and> refPath ! i = CHR ''/''
           \<and> take i refPath \<in> set names
           \<and> toAbsoluteUri repository (drop i refPath) validate = Some l"
      unfolding found_def k_def by (rule "1.IH" [OF refl refl refl])
    with None pos rec "1.prems"(2) obtain i where "i < length refPath" "int i \<le> max (k - 1) 0"
      "refPath ! i = CHR ''/''" "take i refPath \<in> set names"
      "toAbsoluteUri repository (drop i refPath) validate = Some l"
      by blast
    moreover from pos kle have "max (k - 1) 0 \<le> max (index - 1) 0" by simp
    ultimately show ?thesis by (meson order_trans)
  qed
qed

lemma refs_heads_rest:
  assumes "startsWith p ''/refs/heads/''"
  obtains r where "p = ''/refs/heads/'' @ r"
proof -
  have "length ''/refs/heads/'' = 12"
    by simp
  with assms have t: "take 12 p = ''/refs/heads/''"
    by (simp only: startsWith_def)
  have "p = take 12 p @ drop 12 p"
    by simp
  then show ?thesis
    unfolding t by (rule that)
qed

lemma str_split_not_Nil: "str_split s c \<noteq> []"
  by (induction s) (auto split: list.splits)

lemma str_split_no_sep: "c \<notin> set s \<Longrightarrow> str_split s c = [s]"
  by (induction s) auto

lemma str_split_label: "c \<notin> set a \<Longrightarrow> str_split (a @ c # r) c = a # str_split r c"
  by (induction a) auto

lemma of_char_digit: "d < 10 \<Longrightarrow> (of_char (char_of (48 + d :: nat)) :: nat) = 48 + d"
  by (simp add: of_char_of)

lemma isDigit_char_of: "d < 10 \<Longrightarrow> isDigit (char_of (48 + d :: nat))"
  by (simp add: isDigit_def of_char_digit)

lemma decimal_not_Nil: "decimal n \<noteq> []"
  by (subst decimal.simps) simp

lemma decimal_digits: "list_all isDigit (decimal n)"
proof (induction n rule: decimal.induct)
  case (1 n)
  show ?case
  proof (cases "n < 10")
    case True
    then show ?thesis by (subst decimal.simps) (simp add: isDigit_char_of)
  next
    case False
    with 1 show ?thesis by (subst decimal.simps) (simp add: isDigit_char_of)
  qed
qed

lemma digitsValue_snoc: "digitsValue (s @ [c]) = 10 * digitsValue s + ((of_char c :: nat) - 48)"
  by (simp add: digitsValue_def)

lemma digitsValue_decimal: "digitsValue (decimal n) = n"
proof (induction n rule: decimal.induct)
  case (1 n)
  show ?case
  proof (cases "n < 10")
    case True
    then show ?thesis by (subst decimal.simps) (simp add: digitsValue_def of_char_digit)
  next
    case False
    with 1 have "digitsValue (decimal (n div 10)) = n div 10" by simp
    with False show ?thesis
      by (subst decimal.simps) (simp add: digitsValue_snoc of_char_digit)
  qed
qed

lemma rangeRegex_decimal: "rangeRegex_exec (decimal n) = Some (decimal n)"
  by (simp add: rangeRegex_exec_def decimal_not_Nil decimal_digits)

lemma startLineOf_decimal:
  "n \<le> 2 ^ 53 \<Longrightarrow> fragment u = decimal n \<Longrightarrow> startLineOf u = Some (Exact n)"
  by (simp add: startLineOf_def rangeRegex_decimal decimal_not_Nil parseInt10_def digitsValue_decimal)

lemma startLineOf_eq:
  "startLineOf u =
     (if fragment u \<noteq> [] \<and> list_all isDigit (fragment u) then Some (parseInt10 (fragment u)) else None)"
  by (simp add: startLineOf_def rangeRegex_exec_def)


lemma indexOf_found:
  assumes "indexOf s c k \<noteq> - 1"
  shows "c \<in> set (drop k s)"
    and "indexOf s c k = int k + int (length (takeWhile (\<lambda>x. x \<noteq> c) (drop k s)))"
  using assms by (auto simp: indexOf_def Let_def split: if_splits)

lemma permalink_Some:
  assumes "permalink isSha repository validate p (indexOf p CHR ''/'' 1) = Some l"
  shows "resolvesAsCommit isSha repository validate p"
    and "toAbsoluteUri repository (dropWhile (\<lambda>x. x \<noteq> CHR ''/'') (drop 1 p)) validate = Some l"
proof -
  define tw where "tw = takeWhile (\<lambda>x. x \<noteq> CHR ''/'') (drop 1 p)"
  define dw where "dw = dropWhile (\<lambda>x. x \<noteq> CHR ''/'') (drop 1 p)"
  define index where "index = indexOf p CHR ''/'' 1"
  from assms have found: "index \<noteq> - 1"
    by (auto simp: permalink_def index_def split: if_splits)
  then have mem: "CHR ''/'' \<in> set (drop 1 p)" and ix: "index = 1 + int (length tw)"
    using indexOf_found [of p "CHR ''/''" 1] by (simp_all add: index_def tw_def)
  from mem have dwne: "dw \<noteq> []"
    by (simp add: dw_def dropWhile_eq_Nil_conv)
  have split: "tw @ dw = drop 1 p"
    by (simp add: tw_def dw_def)
  from mem have pne: "p \<noteq> []" by auto
  have twle: "length tw < length (drop 1 p)"
    using split dwne by (metis length_append length_greater_0_conv less_add_same_cancel1)
  then have lp: "1 + length tw < length p" by simp
  have sub: "substring p 1 index = tw"
  proof -
    have "substring p 1 index = take (length tw) (drop 1 p)"
      using lp by (simp add: substring_def Let_def ix min_def max_def)
    also have "\<dots> = tw"
      unfolding tw_def by (rule takeWhile_eq_take [symmetric])
    finally show ?thesis .
  qed
  have rest: "substr p index = dw"
  proof -
    have "substr p index = drop (length tw) (drop 1 p)"
      by (simp add: substr_drop ix nat_add_distrib add.commute)
    also have "\<dots> = dw"
      unfolding tw_def dw_def by (rule dropWhile_eq_drop [symmetric])
    finally show ?thesis .
  qed
  from assms have "permalink isSha repository validate p index = Some l"
    by (simp add: index_def)
  with found have "(isSha tw \<or> tw = ''HEAD'') \<and> toAbsoluteUri repository dw validate = Some l"
    by (auto simp: permalink_def sub rest Let_def split: if_splits)
  with dwne show "resolvesAsCommit isSha repository validate p"
    and "toAbsoluteUri repository (dropWhile (\<lambda>x. x \<noteq> CHR ''/'') (drop 1 p)) validate = Some l"
    unfolding resolvesAsCommit_def Let_def tw_def dw_def by auto
qed

lemma scan_resolvesAsRef:
  assumes "scan repository validate names refPath index = Some l" and "[] \<notin> set names"
  shows "resolvesAsRef repository validate names refPath"
proof -
  from scan_Some [OF assms] obtain i where "i < length refPath" "refPath ! i = CHR ''/''"
    "take i refPath \<in> set names" "toAbsoluteUri repository (drop i refPath) validate = Some l"
    by blast
  then show ?thesis
    unfolding resolvesAsRef_def list_ex_iff by auto
qed

lemma getLocalInfo_startLine:
  "getLocalInfoFromRemoteUri isSha this repository u validate = Inr (Some loc)
   \<Longrightarrow> startLine loc = startLineOf u"
  by (auto simp: getLocalInfoFromRemoteUri_def Let_def
      split: if_splits option.splits sum.splits prod.splits)

lemma getLocalInfo_fragment:
  "map_sum id (map_option uri) (getLocalInfoFromRemoteUri isSha this repository (u\<lparr>fragment := f\<rparr>) validate)
   = map_sum id (map_option uri) (getLocalInfoFromRemoteUri isSha this repository u validate)"
  by (simp add: getLocalInfoFromRemoteUri_def Let_def option.map_comp o_def
      split: option.splits sum.splits prod.splits)

lemma getLocalInfo_Some:
  assumes res: "getLocalInfoFromRemoteUri isSha this repository u validate = Inr (Some loc)"
    and br: "getBranches repository remote = Inr bs" and tg: "getTags repository = Inr ts"
    and ne: "[] \<notin> set (map getNameWithoutRemote bs)" "[] \<notin> set (map tag_name ts)"
  shows "\<exists>project rest. fileRegex_exec (uri_path u) = Some (project, rest)
           \<and> interpretationResolves isSha repository validate
                (map getNameWithoutRemote bs) (map tag_name ts) rest"
proof -
  from res obtain project rest where rx: "fileRegex_exec (uri_path u) = Some (project, rest)"
    by (auto simp: getLocalInfoFromRemoteUri_def Let_def split: if_splits option.splits)
  define index where "index = indexOf rest CHR ''/'' 1"
  have "interpretationResolves isSha repository validate
          (map getNameWithoutRemote bs) (map tag_name ts) rest"
  proof (cases "permalink isSha repository validate rest index")
    case (Some l)
    then show ?thesis
      using permalink_Some(1) [of isSha repository validate rest l]
      by (simp add: interpretationResolves_def index_def)
  next
    case None
    show ?thesis
    proof (cases "startsWith rest ''/refs/heads/''")
      case True
      with res rx None br obtain l where
        "scan repository validate (map getNameWithoutRemote bs) (substr rest 12) index = Some l"
        by (auto simp: getLocalInfoFromRemoteUri_def Let_def index_def split: if_splits)
      then have "resolvesAsRef repository validate (map getNameWithoutRemote bs) (drop 12 rest)"
        using scan_resolvesAsRef ne(1) by (simp add: substr_drop)
      with True show ?thesis by (simp add: interpretationResolves_def)
    next
      case False
      note nb = this
      show ?thesis
      proof (cases "startsWith rest ''/refs/tags/''")
        case True
        with res rx None nb tg obtain l where
          "scan repository validate (map tag_name ts) (substr rest 11) index = Some l"
          by (auto simp: getLocalInfoFromRemoteUri_def Let_def index_def split: if_splits)
        then have "resolvesAsRef repository validate (map tag_name ts) (drop 11 rest)"
          using scan_resolvesAsRef ne(2) by (simp add: substr_drop)
        with True show ?thesis by (simp add: interpretationResolves_def)
      next
        case False
        with res rx None nb show ?thesis
          by (auto simp: getLocalInfoFromRemoteUri_def Let_def index_def split: if_splits)
      qed
    qed
  qed
  with rx show ?thesis by blast
qed

lemma getLocalInfo_no_error:
  assumes "getLocalInfoFromRemoteUri isSha this repository u validate = Inl e"
  shows "getBranches repository remote = Inl e \<or> getTags repository = Inl e"
  using assms
  by (auto simp: getLocalInfoFromRemoteUri_def Let_def
      split: if_splits option.splits sum.splits prod.splits)

lemma startsWith_project:
  "startsWith (CHR ''/'' # p @ CHR ''/'' # r) (CHR ''/'' # p @ ''/'')"
  by (simp add: startsWith_def)

lemma takeWhile_segment:
  "CHR ''/'' \<notin> set p \<Longrightarrow> takeWhile (\<lambda>x. x \<noteq> CHR ''/'') (p @ CHR ''/'' # t) = p"
  by (induction p) auto

lemma dropWhile_segment:
  "CHR ''/'' \<notin> set p \<Longrightarrow> dropWhile (\<lambda>x. x \<noteq> CHR ''/'') (p @ CHR ''/'' # t) = CHR ''/'' # t"
  by (induction p) auto

lemma fileRegex_permalink:
  assumes "p \<noteq> []" and "CHR ''/'' \<notin> set p" and "\<not> list_ex lineTerminator r"
  shows "fileRegex_exec (CHR ''/'' # p @ CHR ''/'' # CHR ''+'' # CHR ''/'' # r)
         = Some (p, CHR ''/'' # r)"
  using assms
  by (simp add: fileRegex_exec_def takeWhile_segment dropWhile_segment lineTerminator_def)

lemma permalink_segment:
  assumes "CHR ''/'' \<notin> set a" and "isSha a \<or> a = ''HEAD''"
  shows "permalink isSha repository validate (CHR ''/'' # a @ CHR ''/'' # f)
           (indexOf (CHR ''/'' # a @ CHR ''/'' # f) CHR ''/'' 1)
         = toAbsoluteUri repository (CHR ''/'' # f) validate"
proof -
  have ix: "indexOf (CHR ''/'' # a @ CHR ''/'' # f) CHR ''/'' 1 = 1 + int (length a)"
    using assms(1) by (simp add: indexOf_def takeWhile_segment)
  have sub: "substring (CHR ''/'' # a @ CHR ''/'' # f) 1 (1 + int (length a)) = a"
    by (simp add: substring_def Let_def min_def max_def)
  have rest: "substr (CHR ''/'' # a @ CHR ''/'' # f) (1 + int (length a)) = CHR ''/'' # f"
    by (simp add: substr_def Let_def min_def nat_add_distrib)
  show ?thesis
    using assms(2) unfolding ix by (simp add: permalink_def sub rest Let_def)
qed

lemma getLocalInfo_permalink:
  assumes "authority u = domain this"
    and "startsWith (uri_path u) (''/'' @ path this @ ''/'')"
    and "fileRegex_exec (uri_path u) = Some (project, p)"
    and "permalink isSha repository validate p (indexOf p CHR ''/'' 1) = Some l"
  shows "getLocalInfoFromRemoteUri isSha this repository u validate
         = Inr (Some \<lparr> uri = l, startLine = startLineOf u \<rparr>)"
  using assms by (simp add: getLocalInfoFromRemoteUri_def Let_def)


lemma takeWhile_stop:
  assumes "\<forall>x\<in>set xs. P x" and "ys = [] \<or> \<not> P (hd ys)"
  shows "takeWhile P (xs @ ys) = xs"
  using assms by (induction xs) (auto simp: takeWhile_eq_Nil_iff)

lemma plainText_chars:
  "plainText s \<Longrightarrow> x \<in> set s \<Longrightarrow> x \<noteq> CHR ''?'' \<and> x \<noteq> CHR ''#'' \<and> \<not> lineTerminator x"
  by (auto simp: plainText_def list_ex_iff)

lemma plainText_append: "plainText (a @ b) = (plainText a \<and> plainText b)"
  by (auto simp: plainText_def list_ex_iff)

lemma readScheme_http:
  assumes "scheme = ''https'' \<or> scheme = ''http''"
  shows "readScheme (scheme @ CHR '':'' # t) = (scheme, t)"
  using assms by (auto simp: readScheme_def)

lemma readAuthority_host:
  assumes "plainText host" and "CHR ''/'' \<notin> set host"
  shows "readAuthority (CHR ''/'' # CHR ''/'' # host @ CHR ''/'' # t) = (host, CHR ''/'' # t)"
proof -
  have "\<forall>x\<in>set host. x \<notin> set ''/?#''"
    using assms plainText_chars [OF assms(1)] by auto
  then have "takeWhile (\<lambda>c. c \<notin> set ''/?#'') (host @ CHR ''/'' # t) = host"
    by (rule takeWhile_stop) simp
  then show ?thesis
    by (simp add: readAuthority_def)
qed

lemma readPath_plain:
  assumes "plainText p" and "frag = [] \<or> hd frag = CHR ''#''"
  shows "readPath (p @ frag) = (p, frag)"
proof -
  have "\<forall>x\<in>set p. x \<notin> set ''?#''"
    using plainText_chars [OF assms(1)] by auto
  moreover have "frag = [] \<or> \<not> (hd frag \<notin> set ''?#'')"
    using assms(2) by auto
  ultimately have "takeWhile (\<lambda>c. c \<notin> set ''?#'') (p @ frag) = p"
    by (rule takeWhile_stop)
  then show ?thesis
    by (simp add: readPath_def)
qed

lemma readFragment_line:
  assumes "frag = [] \<or> hd frag = CHR ''#''"
  shows "readFragment frag = drop 1 frag"
  using assms by (cases frag) (auto simp: readFragment_def)

lemma parseUri_plain:
  assumes scheme: "scheme = ''https'' \<or> scheme = ''http''"
    and host: "plainText host" "CHR ''/'' \<notin> set host"
    and rest: "plainText rest"
    and frag: "frag = [] \<or> hd frag = CHR ''#''"
  shows "parseUri (scheme @ ''://'' @ host @ ''/'' @ rest @ frag)
         = \<lparr> authority = host, uri_path = CHR ''/'' # rest, fragment = drop 1 frag \<rparr>"
proof -
  have 1: "readScheme (scheme @ ''://'' @ host @ ''/'' @ rest @ frag)
           = (scheme, CHR ''/'' # CHR ''/'' # host @ CHR ''/'' # rest @ frag)"
    using readScheme_http [OF scheme] by simp
  have 2: "readAuthority (CHR ''/'' # CHR ''/'' # host @ CHR ''/'' # rest @ frag)
           = (host, CHR ''/'' # rest @ frag)"
    using host by (rule readAuthority_host)
  have "plainText (CHR ''/'' # rest)"
    using rest by (simp add: plainText_def lineTerminator_def)
  then have "readPath ((CHR ''/'' # rest) @ frag) = (CHR ''/'' # rest, frag)"
    using frag by (rule readPath_plain)
  then have 3: "readPath (CHR ''/'' # rest @ frag) = (CHR ''/'' # rest, frag)"
    by simp
  have 4: "readFragment frag = drop 1 frag"
    using frag by (rule readFragment_line)
  have 5: "referenceResolution (if scheme = [] then ''file'' else scheme) (CHR ''/'' # rest)
           = CHR ''/'' # rest"
    using scheme by (auto simp: referenceResolution_def)
  show ?thesis
    unfolding parseUri_def 1 Let_def prod.case 2 3 4 5 ..
qed

lemma resolve_file_permalink:
  assumes host: "authority u = domain this"
    and upath: "uri_path u = CHR ''/'' # path this @ CHR ''/'' # CHR ''+'' # CHR ''/'' # ref @ CHR ''/'' # fileName"
    and frag: "fragment u = (case rng of None \<Rightarrow> [] | Some r \<Rightarrow> decimal (start_line r))"
    and seg: "CHR ''/'' \<notin> set ref" and sha: "isSha ref \<or> ref = ''HEAD''"
    and project: "path this \<noteq> [] \<and> CHR ''/'' \<notin> set (path this)"
    and one_line: "\<not> list_ex lineTerminator (ref @ CHR ''/'' # fileName)"
    and file_ok: "toAbsoluteUri repository (CHR ''/'' # fileName) validate = Some l"
    and line_ok: "case rng of None \<Rightarrow> True | Some r \<Rightarrow> start_line r \<le> 2 ^ 53"
  shows "getLocalInfoFromRemoteUri isSha this repository u validate
         = Inr (Some \<lparr> uri = l, startLine = map_option (\<lambda>r. Exact (start_line r)) rng \<rparr>)"
proof -
  have rx: "fileRegex_exec (uri_path u) = Some (path this, CHR ''/'' # ref @ CHR ''/'' # fileName)"
    using fileRegex_permalink [of "path this" "ref @ CHR ''/'' # fileName"] project one_line
    by (simp add: upath)
  have pl: "permalink isSha repository validate (CHR ''/'' # ref @ CHR ''/'' # fileName)
              (indexOf (CHR ''/'' # ref @ CHR ''/'' # fileName) CHR ''/'' 1) = Some l"
    using permalink_segment [of ref isSha repository validate fileName] seg sha file_ok by simp
  have sl: "startLineOf u = map_option (\<lambda>r. Exact (start_line r)) rng"
  proof (cases rng)
    case None
    with frag show ?thesis by (simp add: startLineOf_def)
  next
    case (Some r)
    with line_ok have "start_line r \<le> 2 ^ 53" by simp
    moreover from frag Some have "fragment u = decimal (start_line r)" by simp
    ultimately have "startLineOf u = Some (Exact (start_line r))"
      by (rule startLineOf_decimal)
    with Some show ?thesis by simp
  qed
  have pre: "startsWith (uri_path u) (''/'' @ path this @ ''/'')"
    using startsWith_project [of "path this" "CHR ''+'' # CHR ''/'' # ref @ CHR ''/'' # fileName"]
    by (simp add: upath)
  have "getLocalInfoFromRemoteUri isSha this repository u validate
        = Inr (Some \<lparr> uri = l, startLine = startLineOf u \<rparr>)"
    using host pre rx pl by (rule getLocalInfo_permalink)
  then show ?thesis
    by (simp only: sl)
qed

section \<open>The claims about the resolver\<close>

lemmas eval_defs =
  getLocalInfoFromRemoteUri_def startsWith_def fileRegex_exec_def lineTerminator_def
  indexOf_def lastIndexOf_def permalink_def substring_def substr_def startLineOf_def
  rangeRegex_exec_def isDigit_def parseInt10_def digitsValue_def Let_def
  isSha40_def exampleRemote_def exampleRepository_def exampleSha_def scan.simps

lemma refs_heads_index:
  assumes "startsWith p ''/refs/heads/''"
  shows "indexOf p CHR ''/'' 1 = 5"
proof -
  from assms obtain r where "p = ''/refs/heads/'' @ r"
    by (rule refs_heads_rest)
  then show ?thesis
    by (simp add: indexOf_def)
qed

text \<open>
  What the stale index costs: when every known branch name is longer than four
  characters, no URL of the form \<open>/<project>/+/refs/heads/...\<close> resolves, whatever
  branch and file it names.
\<close>

lemma stale_index_hides_long_branches:
  assumes rx: "fileRegex_exec (uri_path u) = Some (project, rest)"
    and heads: "startsWith rest ''/refs/heads/''"
    and refs: "\<not> isSha ''refs''"
    and branches: "getBranches repository remote = Inr bs"
    and long: "list_all (\<lambda>b. 4 < length (getNameWithoutRemote b)) bs"
  shows "getLocalInfoFromRemoteUri isSha this repository u validate = Inr None"
proof -
  from heads obtain r where rest: "rest = ''/refs/heads/'' @ r"
    by (rule refs_heads_rest)
  have ix: "indexOf rest CHR ''/'' 1 = 5"
    by (simp add: rest indexOf_def)
  have pl: "permalink isSha repository validate rest 5 = None"
    using refs by (simp add: permalink_def rest substring_def Let_def)
  have names: "[] \<notin> set (map getNameWithoutRemote bs)"
    using long by (auto simp: list_all_iff)
  have sc: "scan repository validate (map getNameWithoutRemote bs) (substr rest 12) 5 = None"
  proof (cases "scan repository validate (map getNameWithoutRemote bs) (substr rest 12) 5")
    case None
    then show ?thesis .
  next
    case (Some l)
    from scan_Some [OF Some names] obtain i where i: "int i \<le> max (5 - 1) 0"
      and "take i (substr rest 12) \<in> set (map getNameWithoutRemote bs)"
      by blast
    then obtain b where "b \<in> set bs" and "getNameWithoutRemote b = take i (substr rest 12)"
      by auto
    with long have "4 < length (take i (substr rest 12))"
      by (auto simp: list_all_iff)
    with i show ?thesis by simp
  qed
  show ?thesis
    using rx heads branches ix pl sc
    by (simp add: getLocalInfoFromRemoteUri_def Let_def)
qed

lemma nested_branch_example:
  "getLocalInfoFromRemoteUri isSha40 exampleRemote (exampleRepository [''a'', ''a/b''] [])
     \<lparr> authority = ''foo.example.com'', uri_path = ''/proj/+/refs/heads/a/b/file.txt'',
       fragment = ''42'' \<rparr> None
   = Inr (Some \<lparr> uri = ''file:///repo/file.txt'', startLine = Some (Exact 42) \<rparr>)"
  by (simp add: eval_defs)

text \<open>
  C1 (the code departs from the claim). The claim: for every path \<open>refs/heads/<rest>\<close>
  the split points are scanned from the rightmost \<open>/\<close> of \<open>rest\<close> leftward and the
  first prefix that is a known branch wins. The loop is entered with the index left by
  the permalink check (5, the position of the second \<open>/\<close> of \<open>/refs/heads/...\<close>), so
  it only sees a \<open>/\<close> among the first five characters of \<open>rest\<close>: with the one
  remote branch \<open>master\<close>, the path \<open>/proj/+/refs/heads/master/file.txt\<close> is not
  resolved, while the same loop entered at the length of \<open>rest\<close> finds the branch.
\<close>

theorem branch_scan_enters_at_stale_index:
  "getLocalInfoFromRemoteUri isSha40 exampleRemote (exampleRepository [''master''] [])
     \<lparr> authority = ''foo.example.com'', uri_path = ''/proj/+/refs/heads/master/file.txt'',
       fragment = [] \<rparr> None
   = Inr None
   \<and> indexOf ''/refs/heads/master/file.txt'' CHR ''/'' 1 = 5
   \<and> scan (exampleRepository [''master''] []) None [''master''] ''master/file.txt'' 5 = None
   \<and> scan (exampleRepository [''master''] []) None [''master''] ''master/file.txt''
         (int (length ''master/file.txt''))
       = Some ''file:///repo/file.txt''"
  by (simp add: eval_defs)

text \<open>
  C3 (corrected). The claim fails at a domain of four labels: the code keeps the first
  three parts of the split and drops the others.
\<close>

theorem reviewDomain_drops_fourth_label:
  "reviewDomain (exampleRemote\<lparr> domain := ''gerrit.example.co.uk'' \<rparr>) = ''gerrit-review.example.co''
   \<and> reviewDomainSpec ''gerrit.example.co.uk'' = ''gerrit-review.example.co.uk''"
  by (simp add: reviewDomain_def reviewDomainSpec_def element_def template_def exampleRemote_def)

text \<open>
  C3, as amended: for every configured domain of exactly three dot-separated labels
  \<open>a.b.c\<close>, the review domain is \<open>a-review.b.c\<close>, which is the domain with
  \<open>-review\<close> added to its first label and the other labels unchanged; the autolink
  descriptor, the commit URL and the branch-list URL are built on it.
\<close>

theorem reviewDomain_three_labels:
  assumes "domain this = a @ ''.'' @ b @ ''.'' @ c"
    and "CHR ''.'' \<notin> set a" and "CHR ''.'' \<notin> set b" and "CHR ''.'' \<notin> set c"
  shows "reviewDomain this = a @ ''-review.'' @ b @ ''.'' @ c
    \<and> reviewDomain this = reviewDomainSpec (domain this)
    \<and> map url (autolinks this) = [protocol this @ ''://'' @ a @ ''-review.'' @ b @ ''.'' @ c @ ''/q/<num>'']
    \<and> getUrlForCommit this sha
        = encodeUrl this (protocol this @ ''://'' @ a @ ''-review.'' @ b @ ''.'' @ c @ ''/q/'' @ sha)
    \<and> getUrlForBranches this
        = encodeUrl this (protocol this @ ''://'' @ a @ ''-review.'' @ b @ ''.'' @ c
                          @ ''/admin/repos/'' @ path this @ '',branches'')"
proof -
  have parts: "str_split (domain this) CHR ''.'' = [a, b, c]"
    using assms by (simp add: str_split_label str_split_no_sep)
  then have rd: "reviewDomain this = a @ ''-review.'' @ b @ ''.'' @ c"
    by (simp add: reviewDomain_def element_def template_def)
  moreover from parts have "reviewDomainSpec (domain this) = a @ ''-review.'' @ b @ ''.'' @ c"
    by (simp add: reviewDomainSpec_def)
  ultimately show ?thesis
    by (simp add: autolinks_def baseReviewUrl_def getUrlForCommit_def getUrlForBranches_def)
qed

theorem reviewDomain_three_labels_witness:
  "reviewDomain exampleRemote = ''foo-review.example.com''
   \<and> reviewDomain exampleRemote = reviewDomainSpec ''foo.example.com''
   \<and> map url (autolinks exampleRemote) = [''https://foo-review.example.com/q/<num>'']
   \<and> getUrlForCommit exampleRemote exampleSha
       = ''https://foo-review.example.com/q/0123456789abcdef0123456789abcdef01234567''
   \<and> getUrlForBranches exampleRemote = ''https://foo-review.example.com/admin/repos/proj,branches''"
  using reviewDomain_three_labels [of exampleRemote "''foo''" "''example''" "''com''" exampleSha]
  by (simp add: exampleRemote_def exampleSha_def reviewDomainSpec_def)

text \<open>
  C7. Whenever \<open>getLocalInfoFromRemoteUri\<close> returns a location, its starting line is
  the number the fragment denotes when the fragment is a non-empty string of decimal
  digits (as \<open>parseInt\<close> reads it: exactly, for a number up to \<open>2^53\<close>), and absent
  for any other fragment and for no fragment; and the fragment has no part in whether
  and where the URL resolves: with any other fragment the same local URI is returned.
\<close>

theorem startLine_from_fragment:
  assumes "getLocalInfoFromRemoteUri isSha this repository u validate = Inr (Some loc)"
  shows "startLine loc =
           (if fragment u \<noteq> [] \<and> list_all isDigit (fragment u)
            then Some (parseInt10 (fragment u)) else None)
    \<and> (if fragment u \<noteq> [] \<and> list_all isDigit (fragment u) \<and> digitsValue (fragment u) \<le> 2 ^ 53
        then startLine loc = Some (Exact (digitsValue (fragment u))) else True)
    \<and> (\<forall>f. map_sum id (map_option uri)
               (getLocalInfoFromRemoteUri isSha this repository (u\<lparr>fragment := f\<rparr>) validate)
             = Inr (Some (uri loc)))"
proof -
  have line: "startLine loc = startLineOf u"
    using assms by (rule getLocalInfo_startLine)
  have "map_sum id (map_option uri)
          (getLocalInfoFromRemoteUri isSha this repository (u\<lparr>fragment := f\<rparr>) validate)
        = Inr (Some (uri loc))" for f
    using assms by (simp add: getLocalInfo_fragment)
  with line show ?thesis
    by (simp add: startLineOf_eq parseInt10_def)
qed

theorem startLine_from_fragment_witness:
  "startLine \<lparr> uri = ''file:///repo/file.txt'', startLine = Some (Exact 42) \<rparr>
     = Some (parseInt10 ''42'')
   \<and> parseInt10 ''42'' = Exact 42
   \<and> getLocalInfoFromRemoteUri isSha40 exampleRemote (exampleRepository [''a'', ''a/b''] [])
        \<lparr> authority = ''foo.example.com'', uri_path = ''/proj/+/refs/heads/a/b/file.txt'',
          fragment = ''foo'' \<rparr> None
      = Inr (Some \<lparr> uri = ''file:///repo/file.txt'', startLine = None \<rparr>)"
proof -
  let ?u = "\<lparr> authority = ''foo.example.com'', uri_path = ''/proj/+/refs/heads/a/b/file.txt'',
              fragment = ''42'' \<rparr>"
  let ?loc = "\<lparr> uri = ''file:///repo/file.txt'', startLine = Some (Exact 42) \<rparr>"
  have run: "getLocalInfoFromRemoteUri isSha40 exampleRemote (exampleRepository [''a'', ''a/b''] [])
               ?u None = Inr (Some ?loc)"
    by (simp add: eval_defs)
  from startLine_from_fragment [OF run]
  have "startLine ?loc = Some (parseInt10 ''42'')"
    by (simp add: isDigit_def)
  moreover have "parseInt10 ''42'' = Exact 42"
    by (simp add: parseInt10_def digitsValue_def)
  moreover have "getLocalInfoFromRemoteUri isSha40 exampleRemote (exampleRepository [''a'', ''a/b''] [])
        \<lparr> authority = ''foo.example.com'', uri_path = ''/proj/+/refs/heads/a/b/file.txt'',
          fragment = ''foo'' \<rparr> None
      = Inr (Some \<lparr> uri = ''file:///repo/file.txt'', startLine = None \<rparr>)"
    by (simp add: eval_defs)
  ultimately show ?thesis by blast
qed

text \<open>
  C8 (corrected). The claim fails for a branch: the ref written into the URL is not the
  branch name but \<open>refs/heads/<branch>\<close>, the URL of \<open>getUrlForBranch\<close> (here with an
  \<open>encodeUrl\<close> that changes nothing).
\<close>

theorem branch_file_url_has_refs_heads:
  "getUrlForFile exampleRemote ''src/a.ts'' (Some ''main'') None None
     = ''https://foo.example.com/proj/+/refs/heads/main/src/a.ts''
   \<and> fileUrlForm (baseUrl exampleRemote) ''main'' ''src/a.ts''
     = ''https://foo.example.com/proj/+/main/src/a.ts''"
  by (simp add: getUrlForFile_def getUrlForBranch_def fileUrlForm_def truthy_def exampleRemote_def)

text \<open>
  C8, as amended: \<open>getUrlForFile\<close> builds \<open>encodeUrl(<baseUrl>/+/<ref>/<fileName>)\<close>,
  where the ref is the sha when a (non-empty) sha is given, else the branch written as
  its ref, \<open>refs/heads/<branch>\<close> inside the URL that \<open>getUrlForBranch\<close> has already
  passed through \<open>encodeUrl\<close>, when a (non-empty) branch is given, else the literal
  \<open>HEAD\<close>; and when a range is given, \<open>#\<close> and the decimal digits of its starting
  line, as stored, are appended.
\<close>

theorem getUrlForFile_form:
  "getUrlForFile this fileName branch sha rng =
     (if truthy sha then encodeUrl this (fileUrlForm (baseUrl this) (the sha) fileName)
      else if truthy branch
      then encodeUrl this
             (encodeUrl this (baseUrl this @ ''/+/'' @ ''refs/heads/'' @ the branch) @ ''/'' @ fileName)
      else encodeUrl this (fileUrlForm (baseUrl this) ''HEAD'' fileName))
     @ (case rng of None \<Rightarrow> [] | Some r \<Rightarrow> ''#'' @ decimal (start_line r))
   \<and> (case rng of None \<Rightarrow> True | Some r \<Rightarrow> digitsValue (decimal (start_line r)) = start_line r)"
  by (simp add: getUrlForFile_def getUrlForBranch_def fileUrlForm_def Let_def digitsValue_decimal
      split: option.splits)

text \<open>
  C9 (corrected). The claim fails at a path that is not of the form
  \<open>/<project>/+/<rest>\<close>: the regular expression asks for \<open>/+\<close> and a non-empty
  rest, not for the \<open>/\<close> after the \<open>+\<close>, and the permalink check skips the first
  character of the rest without looking at it.
\<close>

theorem lenient_pattern_resolves:
  "\<not> matchesPermalinkPattern ''/proj/+xHEAD/file.txt''
   \<and> getLocalInfoFromRemoteUri isSha40 exampleRemote (exampleRepository [] [])
        \<lparr> authority = ''foo.example.com'', uri_path = ''/proj/+xHEAD/file.txt'', fragment = [] \<rparr> None
      = Inr (Some \<lparr> uri = ''file:///repo/file.txt'', startLine = None \<rparr>)"
  by (simp add: matchesPermalinkPattern_def eval_defs)

text \<open>
  C9, as amended: \<open>getLocalInfoFromRemoteUri\<close> returns \<open>undefined\<close> whenever the
  URL's host is not the configured domain, or (unless validation is disabled) its path
  does not start with \<open>/<projectPath>/\<close>, or the path does not match the code's pattern
  (one project segment, \<open>/+\<close>, a non-empty one-line rest), or, the branch and tag
  lookups having answered with non-empty names, no commit, branch or tag interpretation
  of the rest resolves; and it raises nothing of its own: an error is the error of a
  failed branch or tag lookup.
\<close>

theorem undefined_when_unresolved:
  "(authority u \<noteq> domain this
      \<longrightarrow> getLocalInfoFromRemoteUri isSha this repository u validate = Inr None)
   \<and> (validate \<noteq> Some False \<and> \<not> startsWith (uri_path u) (''/'' @ path this @ ''/'')
      \<longrightarrow> getLocalInfoFromRemoteUri isSha this repository u validate = Inr None)
   \<and> (fileRegex_exec (uri_path u) = None
      \<longrightarrow> getLocalInfoFromRemoteUri isSha this repository u validate = Inr None)
   \<and> (getBranches repository remote = Inr bs \<and> getTags repository = Inr ts
       \<and> [] \<notin> set (map getNameWithoutRemote bs) \<and> [] \<notin> set (map tag_name ts)
       \<and> (\<forall>project rest. fileRegex_exec (uri_path u) = Some (project, rest)
              \<longrightarrow> \<not> interpretationResolves isSha repository validate
                       (map getNameWithoutRemote bs) (map tag_name ts) rest)
      \<longrightarrow> getLocalInfoFromRemoteUri isSha this repository u validate = Inr None)
   \<and> (\<forall>e. getLocalInfoFromRemoteUri isSha this repository u validate = Inl e
      \<longrightarrow> getBranches repository remote = Inl e \<or> getTags repository = Inl e)"
proof (intro conjI impI allI)
  assume "authority u \<noteq> domain this"
  then show "getLocalInfoFromRemoteUri isSha this repository u validate = Inr None"
    by (simp add: getLocalInfoFromRemoteUri_def)
next
  assume "validate \<noteq> Some False \<and> \<not> startsWith (uri_path u) (''/'' @ path this @ ''/'')"
  then show "getLocalInfoFromRemoteUri isSha this repository u validate = Inr None"
    by (cases validate) (auto simp: getLocalInfoFromRemoteUri_def)
next
  assume "fileRegex_exec (uri_path u) = None"
  then show "getLocalInfoFromRemoteUri isSha this repository u validate = Inr None"
    by (simp add: getLocalInfoFromRemoteUri_def Let_def)
next
  assume h: "getBranches repository remote = Inr bs \<and> getTags repository = Inr ts
       \<and> [] \<notin> set (map getNameWithoutRemote bs) \<and> [] \<notin> set (map tag_name ts)
       \<and> (\<forall>project rest. fileRegex_exec (uri_path u) = Some (project, rest)
              \<longrightarrow> \<not> interpretationResolves isSha repository validate
                       (map getNameWithoutRemote bs) (map tag_name ts) rest)"
  show "getLocalInfoFromRemoteUri isSha this repository u validate = Inr None"
  proof (cases "getLocalInfoFromRemoteUri isSha this repository u validate")
    case (Inl e)
    with h getLocalInfo_no_error [OF Inl] show ?thesis by auto
  next
    case (Inr r)
    show ?thesis
    proof (cases r)
      case None
      with Inr show ?thesis by simp
    next
      case (Some loc)
      with Inr h getLocalInfo_Some [of isSha this repository u validate loc bs ts]
      show ?thesis by blast
    qed
  qed
next
  fix e
  assume "getLocalInfoFromRemoteUri isSha this repository u validate = Inl e"
  then show "getBranches repository remote = Inl e \<or> getTags repository = Inl e"
    by (rule getLocalInfo_no_error)
qed

theorem undefined_when_unresolved_witness:
  "getLocalInfoFromRemoteUri isSha40 exampleRemote (exampleRepository [''master''] [])
     \<lparr> authority = ''other.example.com'', uri_path = ''/proj/+/HEAD/file.txt'', fragment = [] \<rparr> None
   = Inr None
   \<and> getLocalInfoFromRemoteUri isSha40 exampleRemote (exampleRepository [''master''] [])
     \<lparr> authority = ''foo.example.com'', uri_path = ''/other/+/HEAD/file.txt'', fragment = [] \<rparr> None
   = Inr None
   \<and> getLocalInfoFromRemoteUri isSha40 exampleRemote (exampleRepository [''master''] [])
     \<lparr> authority = ''foo.example.com'', uri_path = ''/proj/HEAD/file.txt'', fragment = [] \<rparr> None
   = Inr None
   \<and> getLocalInfoFromRemoteUri isSha40 exampleRemote (exampleRepository [''master''] [])
     \<lparr> authority = ''foo.example.com'', uri_path = ''/proj/+/refs/heads/x/file.txt'', fragment = [] \<rparr> None
   = Inr None"
proof -
  let ?repo = "exampleRepository [''master''] []"
  let ?u1 = "\<lparr> authority = ''other.example.com'', uri_path = ''/proj/+/HEAD/file.txt'', fragment = [] \<rparr>"
  let ?u2 = "\<lparr> authority = ''foo.example.com'', uri_path = ''/other/+/HEAD/file.txt'', fragment = [] \<rparr>"
  let ?u3 = "\<lparr> authority = ''foo.example.com'', uri_path = ''/proj/HEAD/file.txt'', fragment = [] \<rparr>"
  let ?u4 = "\<lparr> authority = ''foo.example.com'', uri_path = ''/proj/+/refs/heads/x/file.txt'', fragment = [] \<rparr>"
  let ?bs = "[\<lparr> branch_name = ''origin/master'', remote = True, getNameWithoutRemote = ''master'' \<rparr>]"
  have 1: "authority ?u1 \<noteq> domain exampleRemote"
    by (simp add: exampleRemote_def)
  have 2: "None \<noteq> Some False \<and> \<not> startsWith (uri_path ?u2) (''/'' @ path exampleRemote @ ''/'')"
    by (simp add: exampleRemote_def startsWith_def)
  have 3: "fileRegex_exec (uri_path ?u3) = None"
    by (simp add: fileRegex_exec_def)
  have rx: "fileRegex_exec ''/proj/+/refs/heads/x/file.txt'' = Some (''proj'', ''/refs/heads/x/file.txt'')"
    by (simp add: fileRegex_exec_def lineTerminator_def)
  have no: "\<not> interpretationResolves isSha40 ?repo None (map getNameWithoutRemote ?bs) (map tag_name [])
              ''/refs/heads/x/file.txt''"
    by (simp add: interpretationResolves_def resolvesAsCommit_def resolvesAsRef_def startsWith_def
        isSha40_def Let_def upt_rec)
  have 4: "getBranches ?repo remote = Inr ?bs \<and> getTags ?repo = Inr []
       \<and> [] \<notin> set (map getNameWithoutRemote ?bs) \<and> [] \<notin> set (map tag_name [])
       \<and> (\<forall>project rest. fileRegex_exec (uri_path ?u4) = Some (project, rest)
              \<longrightarrow> \<not> interpretationResolves isSha40 ?repo None
                       (map getNameWithoutRemote ?bs) (map tag_name []) rest)"
    using no by (simp add: rx exampleRepository_def)
  from 1 undefined_when_unresolved [of ?u1 exampleRemote isSha40 ?repo None]
  have "getLocalInfoFromRemoteUri isSha40 exampleRemote ?repo ?u1 None = Inr None"
    by blast
  moreover from 2 undefined_when_unresolved [of ?u2 exampleRemote isSha40 ?repo None]
  have "getLocalInfoFromRemoteUri isSha40 exampleRemote ?repo ?u2 None = Inr None"
    by blast
  moreover from 3 undefined_when_unresolved [of ?u3 exampleRemote isSha40 ?repo None]
  have "getLocalInfoFromRemoteUri isSha40 exampleRemote ?repo ?u3 None = Inr None"
    by blast
  moreover from 4 undefined_when_unresolved [of ?u4 exampleRemote isSha40 ?repo None ?bs "[]"]
  have "getLocalInfoFromRemoteUri isSha40 exampleRemote ?repo ?u4 None = Inr None"
    by blast
  ultimately show ?thesis by blast
qed

text \<open>
  C2 (corrected). The claim fails at a URL of the commit builder: it is built on the
  review domain, which is not the configured domain, so the host check rejects it, in a
  repository that holds the commit and every file.
\<close>

theorem commit_url_not_resolved:
  "isSha40 exampleSha
   \<and> getUrlForCommit exampleRemote exampleSha
       = ''https://foo-review.example.com/q/0123456789abcdef0123456789abcdef01234567''
   \<and> authority (parseUri (getUrlForCommit exampleRemote exampleSha)) = ''foo-review.example.com''
   \<and> getLocalInfoFromRemoteUri isSha40 exampleRemote (exampleRepository [] [])
        (parseUri (getUrlForCommit exampleRemote exampleSha)) None
      = Inr None"
proof -
  have sha: "isSha40 exampleSha"
    by (simp add: isSha40_def exampleSha_def)
  have built: "getUrlForCommit exampleRemote exampleSha
       = ''https://foo-review.example.com/q/0123456789abcdef0123456789abcdef01234567''"
    by (simp add: getUrlForCommit_def baseReviewUrl_def reviewDomain_def element_def template_def
        exampleRemote_def exampleSha_def)
  have host: "authority (parseUri (getUrlForCommit exampleRemote exampleSha)) = ''foo-review.example.com''"
    by code_simp
  then have "getLocalInfoFromRemoteUri isSha40 exampleRemote (exampleRepository [] [])
        (parseUri (getUrlForCommit exampleRemote exampleSha)) None = Inr None"
    by (simp add: getLocalInfoFromRemoteUri_def exampleRemote_def)
  with sha built host show ?thesis
    by (simp only: simp_thms)
qed

text \<open>
  C2, as amended: for every URL that the file builder produces for a commit id (a sha
  that \<open>isSha\<close> accepts) or for neither sha nor branch (the \<open>HEAD\<close> form), by a
  provider of protocol \<open>https\<close> or \<open>http\<close> whose base URL is
  \<open><protocol>://<domain>/<path>\<close> and whose project path is one segment, when the URL has
  nothing to escape (\<open>encodeUrl\<close> returns it as it is, and domain, project path, sha
  and file name hold no \<open>?\<close>, \<open>#\<close>, \<open>%\<close> or line break), reading that URL and
  reverse-resolving it against a repository that has the file returns the location the
  repository gives for \<open>/<fileName>\<close>, with the range's starting line (a line up to
  \<open>2^53\<close>; no line without a range). \<open>baseUrl\<close> and \<open>encodeUrl\<close> are members of the
  absent base class.
\<close>

theorem file_url_round_trip:
  assumes base: "baseUrl this = protocol this @ ''://'' @ domain this @ ''/'' @ path this"
    and scheme: "protocol this = ''https'' \<or> protocol this = ''http''"
    and host: "plainText (domain this) \<and> CHR ''/'' \<notin> set (domain this)"
    and project: "path this \<noteq> [] \<and> CHR ''/'' \<notin> set (path this) \<and> plainText (path this)"
    and no_branch: "truthy sha \<or> \<not> truthy branch"
    and commit: "truthy sha \<longrightarrow> isSha (the sha) \<and> CHR ''/'' \<notin> set (the sha) \<and> plainText (the sha)"
    and plain: "plainText fileName"
    and nothing_to_escape:
      "encodeUrl this (baseUrl this @ ''/+/'' @ (if truthy sha then the sha else ''HEAD'') @ ''/'' @ fileName)
       = baseUrl this @ ''/+/'' @ (if truthy sha then the sha else ''HEAD'') @ ''/'' @ fileName"
    and file_ok: "toAbsoluteUri repository (''/'' @ fileName) validate = Some l"
    and line_ok: "case rng of None \<Rightarrow> True | Some r \<Rightarrow> start_line r \<le> 2 ^ 53"
  shows "getLocalInfoFromRemoteUri isSha this repository
           (parseUri (getUrlForFile this fileName branch sha rng)) validate
         = Inr (Some \<lparr> uri = l, startLine = map_option (\<lambda>r. Exact (start_line r)) rng \<rparr>)"
proof -
  define ref where "ref = (if truthy sha then the sha else ''HEAD'')"
  define line where "line = (case rng of None \<Rightarrow> [] | Some r \<Rightarrow> CHR ''#'' # decimal (start_line r))"
  define rest where "rest = path this @ ''/+/'' @ ref @ ''/'' @ fileName"
  have seg: "CHR ''/'' \<notin> set ref" and sha: "isSha ref \<or> ref = ''HEAD''" and pref: "plainText ref"
    using commit by (auto simp: ref_def plainText_def lineTerminator_def)
  have built: "getUrlForFile this fileName branch sha rng
               = protocol this @ ''://'' @ domain this @ ''/'' @ rest @ line"
  proof (cases "truthy sha")
    case True
    with nothing_to_escape show ?thesis
      by (simp add: getUrlForFile_def Let_def ref_def line_def rest_def base split: option.splits)
  next
    case False
    with no_branch have "\<not> truthy branch" by simp
    with False nothing_to_escape show ?thesis
      by (simp add: getUrlForFile_def Let_def ref_def line_def rest_def base split: option.splits)
  qed
  have prest: "plainText rest"
    using project pref plain
    by (simp add: rest_def plainText_append) (simp add: plainText_def lineTerminator_def)
  have fr: "line = [] \<or> hd line = CHR ''#''"
    by (simp add: line_def split: option.splits)
  have parsed: "parseUri (getUrlForFile this fileName branch sha rng)
                = \<lparr> authority = domain this, uri_path = CHR ''/'' # rest, fragment = drop 1 line \<rparr>"
    unfolding built using scheme host prest fr by (intro parseUri_plain) simp_all
  have one_line: "\<not> list_ex lineTerminator (ref @ CHR ''/'' # fileName)"
    using pref plain by (auto simp: plainText_def list_ex_iff lineTerminator_def)
  show ?thesis
  proof (rule resolve_file_permalink [where ref = ref and fileName = fileName])
    show "authority (parseUri (getUrlForFile this fileName branch sha rng)) = domain this"
      by (simp add: parsed)
    show "uri_path (parseUri (getUrlForFile this fileName branch sha rng))
          = CHR ''/'' # path this @ CHR ''/'' # CHR ''+'' # CHR ''/'' # ref @ CHR ''/'' # fileName"
      by (simp add: parsed rest_def)
    show "fragment (parseUri (getUrlForFile this fileName branch sha rng))
          = (case rng of None \<Rightarrow> [] | Some r \<Rightarrow> decimal (start_line r))"
      by (simp add: parsed line_def split: option.splits)
    show "CHR ''/'' \<notin> set ref" by (rule seg)
    show "isSha ref \<or> ref = ''HEAD''" by (rule sha)
    show "path this \<noteq> [] \<and> CHR ''/'' \<notin> set (path this)" using project by simp
    show "\<not> list_ex lineTerminator (ref @ CHR ''/'' # fileName)" by (rule one_line)
    show "toAbsoluteUri repository (CHR ''/'' # fileName) validate = Some l"
      using file_ok by simp
    show "case rng of None \<Rightarrow> True | Some r \<Rightarrow> start_line r \<le> 2 ^ 53" by (rule line_ok)
  qed
qed

theorem file_url_round_trip_witness:
  "getLocalInfoFromRemoteUri isSha40 exampleRemote (exampleRepository [] [])
     (parseUri (getUrlForFile exampleRemote ''src/a.ts'' (Some ''main'') (Some exampleSha)
        (Some \<lparr> start_line = 120 \<rparr>))) None
   = Inr (Some \<lparr> uri = ''file:///repo/src/a.ts'', startLine = Some (Exact 120) \<rparr>)
   \<and> getUrlForFile exampleRemote ''src/a.ts'' (Some ''main'') (Some exampleSha)
        (Some \<lparr> start_line = 120 \<rparr>)
     = ''https://foo.example.com/proj/+/0123456789abcdef0123456789abcdef01234567/src/a.ts#120''"
proof -
  have "getLocalInfoFromRemoteUri isSha40 exampleRemote (exampleRepository [] [])
     (parseUri (getUrlForFile exampleRemote ''src/a.ts'' (Some ''main'') (Some exampleSha)
        (Some \<lparr> start_line = 120 \<rparr>))) None
   = Inr (Some \<lparr> uri = ''file:///repo/src/a.ts'',
          startLine = map_option (\<lambda>r. Exact (start_line r)) (Some \<lparr> start_line = 120 \<rparr>) \<rparr>)"
    by (rule file_url_round_trip)
      (simp_all add: exampleRemote_def exampleRepository_def exampleSha_def isSha40_def truthy_def
        plainText_def lineTerminator_def)
  moreover have "getUrlForFile exampleRemote ''src/a.ts'' (Some ''main'') (Some exampleSha)
        (Some \<lparr> start_line = 120 \<rparr>)
     = ''https://foo.example.com/proj/+/0123456789abcdef0123456789abcdef01234567/src/a.ts#120''"
    by code_simp
  ultimately show ?thesis by simp
qed

section \<open>Lemmas about the picker\<close>

lemma alloc_frame:
  "a < next_ref s \<Longrightarrow> objects (snd (alloc s v)) a = objects s a"
  by (simp add: alloc_def)

lemma alloc_new: "objects (snd (alloc s v)) (fst (alloc s v)) = v"
  by (simp add: alloc_def)

lemma alloc_next: "next_ref (snd (alloc s v)) = Suc (next_ref s)"
  by (simp add: alloc_def)

lemma execute_frame:
  assumes "a < next_ref s"
  shows "objects (snd (execute git item s)) a = objects s a"
proof (cases item)
  case ConfigureCustomRemoteProviderCommandQuickPickItem
  then show ?thesis by simp
next
  case (CopyOrOpenRemoteCommandQuickPickItem r res c b)
  show ?thesis
  proof (cases "objects s res")
    case (Comparison ba co)
    with assms CopyOrOpenRemoteCommandQuickPickItem show ?thesis
      by (simp add: alloc_def Let_def split_def)
  next
    case (CreatePullRequest pb pc)
    with assms CopyOrOpenRemoteCommandQuickPickItem show ?thesis
      by (simp add: alloc_def Let_def split_def split: sum.splits)
  next
    case (File bt f rg)
    with assms CopyOrOpenRemoteCommandQuickPickItem show ?thesis
      by (simp add: alloc_def Let_def split_def split: sum.splits)
  qed (simp_all add: CopyOrOpenRemoteCommandQuickPickItem)
qed

lemma execute_next: "next_ref s \<le> next_ref (snd (execute git item s))"
proof (cases item)
  case ConfigureCustomRemoteProviderCommandQuickPickItem
  then show ?thesis by simp
next
  case (CopyOrOpenRemoteCommandQuickPickItem r res c b)
  show ?thesis
  proof (cases "objects s res")
    case (Comparison ba co)
    with CopyOrOpenRemoteCommandQuickPickItem show ?thesis
      by (simp add: alloc_def Let_def split_def)
  next
    case (CreatePullRequest pb pc)
    with CopyOrOpenRemoteCommandQuickPickItem show ?thesis
      by (simp add: alloc_def Let_def split_def split: sum.splits)
  next
    case (File bt f rg)
    with CopyOrOpenRemoteCommandQuickPickItem show ?thesis
      by (simp add: alloc_def Let_def split_def split: sum.splits)
  qed (simp_all add: CopyOrOpenRemoteCommandQuickPickItem)
qed

lemma passed_same_object:
  assumes "objects s res = objects t res"
  shows "passed (execute git (CopyOrOpenRemoteCommandQuickPickItem r res c b) s)
         = passed (execute git (CopyOrOpenRemoteCommandQuickPickItem r res c b) t)"
proof (cases "objects s res")
  case (Comparison ba co)
  with assms have "objects t res = Comparison ba co" by simp
  with Comparison show ?thesis
    by (simp add: passed_def copyOrOpen_def alloc_def Let_def split_def)
next
  case (CreatePullRequest pb pc)
  with assms have "objects t res = CreatePullRequest pb pc" by simp
  with CreatePullRequest show ?thesis
    by (simp add: passed_def copyOrOpen_def alloc_def Let_def split_def split: sum.splits)
next
  case (File bt f rg)
  with assms have "objects t res = File bt f rg" by simp
  with File assms show ?thesis
    by (simp add: passed_def copyOrOpen_def alloc_def Let_def split_def split: sum.splits)
next
  case (Branch x)
  with assms have "objects t res = Branch x" by simp
  with Branch assms show ?thesis by (simp add: passed_def copyOrOpen_def)
next
  case (Commit x)
  with assms have "objects t res = Commit x" by simp
  with Commit assms show ?thesis by (simp add: passed_def copyOrOpen_def)
next
  case (Tag x)
  with assms have "objects t res = Tag x" by simp
  with Tag assms show ?thesis by (simp add: passed_def copyOrOpen_def)
next
  case (Revision bt f rg sh)
  with assms have "objects t res = Revision bt f rg sh" by simp
  with Revision assms show ?thesis by (simp add: passed_def copyOrOpen_def)
qed

section \<open>The claims about the picker\<close>

text \<open>
  C10. \<open>execute\<close> leaves the resource of the item as it was: every object that existed
  before the call, the item's resource among them, is the same object afterwards (the
  stripped comparison, the resolved pull-request base and the revision are new objects),
  so that a second activation of the item passes the same resource to the provider as
  the first.
\<close>

theorem execute_leaves_resource:
  assumes "item = CopyOrOpenRemoteCommandQuickPickItem r res c b" and "res < next_ref s"
  shows "objects (snd (execute git item s)) res = objects s res
    \<and> (\<forall>a. a < next_ref s \<longrightarrow> objects (snd (execute git item s)) a = objects s a)
    \<and> next_ref s \<le> next_ref (snd (execute git item s))
    \<and> passed (execute git item (snd (execute git item s))) = passed (execute git item s)"
proof -
  have same: "objects (snd (execute git item s)) res = objects s res"
    using assms(2) by (rule execute_frame)
  then have "passed (execute git item (snd (execute git item s))) = passed (execute git item s)"
    unfolding assms(1) by (rule passed_same_object)
  with same show ?thesis
    by (simp add: execute_frame execute_next)
qed

theorem execute_leaves_resource_witness:
  "objects (snd (execute exampleGit
       (CopyOrOpenRemoteCommandQuickPickItem (exampleGitRemote ''origin'' False ''gerrit'') 1 None None)
       exampleStore)) 1
     = Comparison ''origin/main'' ''origin/feature''
   \<and> passed (execute exampleGit
       (CopyOrOpenRemoteCommandQuickPickItem (exampleGitRemote ''origin'' False ''gerrit'') 1 None None)
       exampleStore)
     = Inr (Some (Comparison ''main'' ''feature''))"
proof -
  let ?item = "CopyOrOpenRemoteCommandQuickPickItem (exampleGitRemote ''origin'' False ''gerrit'') 1 None None"
  have "(1::nat) < next_ref exampleStore"
    by (simp add: exampleStore_def)
  from execute_leaves_resource [where item = ?item and git = exampleGit, OF refl this]
  have "objects (snd (execute exampleGit ?item exampleStore)) 1 = objects exampleStore 1"
    by blast
  moreover have "objects exampleStore 1 = Comparison ''origin/main'' ''origin/feature''"
    by (simp add: exampleStore_def)
  moreover have "passed (execute exampleGit ?item exampleStore)
                 = Inr (Some (Comparison ''main'' ''feature''))"
    by (simp add: exampleStore_def exampleGit_def exampleGitRemote_def passed_def copyOrOpen_def
        alloc_def substring_def substr_def indexOf_def Let_def)
  ultimately show ?thesis by simp
qed

text \<open>
  C5 (corrected). The claim fails where the lookup itself fails: \<open>execute\<close> awaits
  \<open>getBranchesAndOrTags\<close> outside any \<open>try\<close>, so the failure ends the activation and
  neither copy nor open is called.
\<close>

theorem failed_lookup_aborts:
  "execute (exampleGit\<lparr> getBranchesAndOrTags := (\<lambda>p branches tags. Inl ServiceFailure) \<rparr>)
     (CopyOrOpenRemoteCommandQuickPickItem (exampleGitRemote ''origin'' False ''bitbucket'') 0 None None)
     exampleStore
   = (Inl ServiceFailure, exampleStore)
   \<and> objects exampleStore 0 = File (Some ''release'') ''src/a.ts'' None"
  by (simp add: exampleStore_def exampleGitRemote_def)

text \<open>
  C5, as amended: for a file resource with a branch or tag reference and a provider whose
  id is \<open>bitbucket\<close> or \<open>bitbucket-server\<close>, \<open>execute\<close> asks the repository service
  for the branches and tags of that name; when the first match has a sha, the provider
  receives a new revision resource with that sha (and the fields of the file resource);
  when the lookup returns nothing (no list, an empty list, or no sha), the provider
  receives the original file resource, and the copy or open is made all the same; when
  the lookup fails, the failure is the outcome of \<open>execute\<close>, the store is as it was,
  and no copy or open is made.
\<close>

theorem bitbucket_file_becomes_revision:
  assumes "objects s res = File (Some bt) f rg"
    and "provider_id (provider r) = ''bitbucket'' \<or> provider_id (provider r) = ''bitbucket-server''"
    and "getBranchesAndOrTags git (repoPath r)
           (\<lambda>b. ref_name b = bt \<or> getNameWithoutRemoteOf git (ref_name b) = bt)
           (\<lambda>b. ref_name b = bt)
         = lookup"
  shows "execute git (CopyOrOpenRemoteCommandQuickPickItem r res c b) s =
           (case lookup of
              Inl e \<Rightarrow> (Inl e, s)
            | Inr found \<Rightarrow>
                if truthy (firstSha found)
                then (Inr (copyOrOpen c r (next_ref s)),
                      s\<lparr> objects := (objects s)(next_ref s := Revision (Some bt) f rg (firstSha found)),
                         next_ref := Suc (next_ref s) \<rparr>)
                else (Inr (copyOrOpen c r res), s))
    \<and> passed (execute git (CopyOrOpenRemoteCommandQuickPickItem r res c b) s) =
           (case lookup of
              Inl e \<Rightarrow> Inl e
            | Inr found \<Rightarrow>
                if truthy (firstSha found)
                then Inr (Some (Revision (Some bt) f rg (firstSha found)))
                else Inr (Some (File (Some bt) f rg)))"
  using assms
  by (auto simp: alloc_def passed_def copyOrOpen_def split: sum.splits)

theorem bitbucket_file_becomes_revision_witness:
  "passed (execute exampleGit
      (CopyOrOpenRemoteCommandQuickPickItem (exampleGitRemote ''origin'' False ''bitbucket'') 0 None None)
      exampleStore)
     = Inr (Some (Revision (Some ''release'') ''src/a.ts'' None (Some exampleSha)))
   \<and> passed (execute (exampleGit\<lparr> getBranchesAndOrTags := (\<lambda>p branches tags. Inr None) \<rparr>)
      (CopyOrOpenRemoteCommandQuickPickItem (exampleGitRemote ''origin'' False ''bitbucket-server'') 0
         (Some True) None)
      exampleStore)
     = Inr (Some (File (Some ''release'') ''src/a.ts'' None))"
proof -
  let ?found = "Some [\<lparr> ref_name = ''origin/release'', ref_sha = Some exampleSha \<rparr>]"
  have obj: "objects exampleStore 0 = File (Some ''release'') ''src/a.ts'' None"
    by (simp add: exampleStore_def)
  have id1: "provider_id (provider (exampleGitRemote ''origin'' False ''bitbucket'')) = ''bitbucket''
      \<or> provider_id (provider (exampleGitRemote ''origin'' False ''bitbucket'')) = ''bitbucket-server''"
    by (simp add: exampleGitRemote_def)
  have id2: "provider_id (provider (exampleGitRemote ''origin'' False ''bitbucket-server'')) = ''bitbucket''
      \<or> provider_id (provider (exampleGitRemote ''origin'' False ''bitbucket-server'')) = ''bitbucket-server''"
    by (simp add: exampleGitRemote_def)
  have look1: "getBranchesAndOrTags exampleGit (repoPath (exampleGitRemote ''origin'' False ''bitbucket''))
           (\<lambda>b. ref_name b = ''release'' \<or> getNameWithoutRemoteOf exampleGit (ref_name b) = ''release'')
           (\<lambda>b. ref_name b = ''release'')
         = Inr ?found"
    by (simp add: exampleGit_def substr_def indexOf_def Let_def)
  have look2: "getBranchesAndOrTags (exampleGit\<lparr> getBranchesAndOrTags := (\<lambda>p branches tags. Inr None) \<rparr>)
           (repoPath (exampleGitRemote ''origin'' False ''bitbucket-server''))
           (\<lambda>b. ref_name b = ''release''
                \<or> getNameWithoutRemoteOf (exampleGit\<lparr> getBranchesAndOrTags := (\<lambda>p branches tags. Inr None) \<rparr>)
                     (ref_name b) = ''release'')
           (\<lambda>b. ref_name b = ''release'')
         = Inr None"
    by simp
  have sha: "truthy (Some exampleSha)" and none: "\<not> truthy (firstSha None)"
    and first: "firstSha ?found = Some exampleSha"
    by (simp_all add: truthy_def firstSha_def exampleSha_def)
  have "passed (execute exampleGit
      (CopyOrOpenRemoteCommandQuickPickItem (exampleGitRemote ''origin'' False ''bitbucket'') 0 None None)
      exampleStore)
     = (case Inr ?found of
          Inl e \<Rightarrow> Inl e
        | Inr found \<Rightarrow>
            if truthy (firstSha found)
            then Inr (Some (Revision (Some ''release'') ''src/a.ts'' None (firstSha found)))
            else Inr (Some (File (Some ''release'') ''src/a.ts'' None)))"
    using bitbucket_file_becomes_revision [OF obj id1 look1, of None None] by (rule conjunct2)
  then have one: "passed (execute exampleGit
      (CopyOrOpenRemoteCommandQuickPickItem (exampleGitRemote ''origin'' False ''bitbucket'') 0 None None)
      exampleStore)
     = Inr (Some (Revision (Some ''release'') ''src/a.ts'' None (Some exampleSha)))"
    by (simp only: sum.case first sha if_True)
  have "passed (execute (exampleGit\<lparr> getBranchesAndOrTags := (\<lambda>p branches tags. Inr None) \<rparr>)
      (CopyOrOpenRemoteCommandQuickPickItem (exampleGitRemote ''origin'' False ''bitbucket-server'') 0
         (Some True) None)
      exampleStore)
     = (case Inr None of
          Inl e \<Rightarrow> Inl e
        | Inr found \<Rightarrow>
            if truthy (firstSha found)
            then Inr (Some (Revision (Some ''release'') ''src/a.ts'' None (firstSha found)))
            else Inr (Some (File (Some ''release'') ''src/a.ts'' None)))"
    using bitbucket_file_becomes_revision [OF obj id2 look2, of "Some True" None] by (rule conjunct2)
  then have two: "passed (execute (exampleGit\<lparr> getBranchesAndOrTags := (\<lambda>p branches tags. Inr None) \<rparr>)
      (CopyOrOpenRemoteCommandQuickPickItem (exampleGitRemote ''origin'' False ''bitbucket-server'') 0
         (Some True) None)
      exampleStore)
     = Inr (Some (File (Some ''release'') ''src/a.ts'' None))"
    by (simp only: sum.case none if_False)
  from one two show ?thesis by (rule conjI)
qed

text \<open>
  C6 (corrected). The claim fails where it says the list is skipped: with no remote the
  quick pick is presented, even when \<open>autoPick\<close> is true, because the immediate return
  asks for exactly one remote.
\<close>

theorem zero_remotes_is_presented:
  "RemoteProviderPicker_show ''Open on Remote'' ''Choose a remote'' 0 []
     (Some \<lparr> autoPick = Given (Pick True), clipboard = Absent, setDefault = Absent \<rparr>)
   = Presenting
       \<lparr> qp_title = ''Open on Remote'',
         qp_placeholder = ''No auto-detected or configured remote providers found'',
         qp_items = [ConfigureCustomRemoteProviderCommandQuickPickItem] \<rparr>"
  by (simp add: RemoteProviderPicker_show_def spread_def Let_def)

text \<open>
  C6, as amended: with zero remotes, whatever the options, \<open>show\<close> presents a list
  (it is not skipped) that consists of exactly one configure-provider item, under the
  placeholder that says no provider was found; no per-remote copy/open item is created,
  and activating the one item opens the documentation page without calling a provider.
\<close>

theorem zero_remotes_one_configure_item:
  "RemoteProviderPicker_show ttl placeHolder res [] options
   = Presenting
       \<lparr> qp_title = ttl,
         qp_placeholder = ''No auto-detected or configured remote providers found'',
         qp_items = [ConfigureCustomRemoteProviderCommandQuickPickItem] \<rparr>
   \<and> execute git ConfigureCustomRemoteProviderCommandQuickPickItem s
     = (Inr (OpenExternal ''https://github.com/eamodio/vscode-gitlens#remote-provider-integration-settings-''), s)"
  by (simp add: RemoteProviderPicker_show_def Let_def)

text \<open>
  C4. With \<open>autoPick\<close> \<open>'default'\<close>, more than one remote and a remote flagged default,
  \<open>show\<close> returns at once the item of the (first) default remote, no list being
  presented; with \<open>autoPick\<close> true it returns at once exactly when there is one remote,
  whatever the default flags, and then the item of that remote; with \<open>autoPick\<close> false
  or not given it always presents the list, with one item for every remote (the one
  configure item when there is none).
\<close>

theorem autoPick_modes:
  "(autoPick opts = Given Default \<and> 1 < length remotes \<and> find default remotes = Some r
      \<longrightarrow> RemoteProviderPicker_show ttl placeHolder res remotes (Some opts)
          = Resolved (Some (CopyOrOpenRemoteCommandQuickPickItem r res (spread False (clipboard opts))
               (if spread True (setDefault opts) = Some True then Some [SetRemoteAsDefault] else None))))
   \<and> (autoPick opts = Given (Pick True)
      \<longrightarrow> ((\<exists>picked. RemoteProviderPicker_show ttl placeHolder res remotes (Some opts) = Resolved picked)
           = (length remotes = 1))
          \<and> (\<forall>only. remotes = [only]
               \<longrightarrow> RemoteProviderPicker_show ttl placeHolder res remotes (Some opts)
                   = Resolved (Some (CopyOrOpenRemoteCommandQuickPickItem only res
                        (spread False (clipboard opts))
                        (if spread True (setDefault opts) = Some True then Some [SetRemoteAsDefault]
                         else None)))))
   \<and> (autoPick opts = Given (Pick False) \<or> autoPick opts = Absent
      \<longrightarrow> RemoteProviderPicker_show ttl placeHolder res remotes (Some opts)
          = Presenting
              \<lparr> qp_title = ttl,
                qp_placeholder =
                  (if remotes = [] then ''No auto-detected or configured remote providers found''
                   else placeHolder),
                qp_items =
                  (if remotes = [] then [ConfigureCustomRemoteProviderCommandQuickPickItem]
                   else map (\<lambda>r. CopyOrOpenRemoteCommandQuickPickItem r res
                                   (spread False (clipboard opts))
                                   (if spread True (setDefault opts) = Some True
                                    then Some [SetRemoteAsDefault] else None))
                          remotes) \<rparr>)"
proof (intro conjI impI allI)
  assume "autoPick opts = Given Default \<and> 1 < length remotes \<and> find default remotes = Some r"
  then show "RemoteProviderPicker_show ttl placeHolder res remotes (Some opts)
          = Resolved (Some (CopyOrOpenRemoteCommandQuickPickItem r res (spread False (clipboard opts))
               (if spread True (setDefault opts) = Some True then Some [SetRemoteAsDefault] else None)))"
    by (auto simp: RemoteProviderPicker_show_def spread_def Let_def)
next
  assume "autoPick opts = Given (Pick True)"
  then show "(\<exists>picked. RemoteProviderPicker_show ttl placeHolder res remotes (Some opts) = Resolved picked)
           = (length remotes = 1)"
    by (auto simp: RemoteProviderPicker_show_def spread_def Let_def)
next
  fix only
  assume "autoPick opts = Given (Pick True)" and "remotes = [only]"
  then show "RemoteProviderPicker_show ttl placeHolder res remotes (Some opts)
                   = Resolved (Some (CopyOrOpenRemoteCommandQuickPickItem only res
                        (spread False (clipboard opts))
                        (if spread True (setDefault opts) = Some True then Some [SetRemoteAsDefault]
                         else None)))"
    by (simp add: RemoteProviderPicker_show_def spread_def Let_def)
next
  assume "autoPick opts = Given (Pick False) \<or> autoPick opts = Absent"
  then show "RemoteProviderPicker_show ttl placeHolder res remotes (Some opts)
          = Presenting
              \<lparr> qp_title = ttl,
                qp_placeholder =
                  (if remotes = [] then ''No auto-detected or configured remote providers found''
                   else placeHolder),
                qp_items =
                  (if remotes = [] then [ConfigureCustomRemoteProviderCommandQuickPickItem]
                   else map (\<lambda>r. CopyOrOpenRemoteCommandQuickPickItem r res
                                   (spread False (clipboard opts))
                                   (if spread True (setDefault opts) = Some True
                                    then Some [SetRemoteAsDefault] else None))
                          remotes) \<rparr>"
    by (auto simp: RemoteProviderPicker_show_def spread_def Let_def)
qed

theorem autoPick_modes_witness:
  "RemoteProviderPicker_show ''Open on Remote'' ''Choose a remote'' 0
     [exampleGitRemote ''origin'' False ''gerrit'', exampleGitRemote ''upstream'' True ''gerrit'']
     (Some \<lparr> autoPick = Given Default, clipboard = Absent, setDefault = Absent \<rparr>)
   = Resolved (Some (CopyOrOpenRemoteCommandQuickPickItem (exampleGitRemote ''upstream'' True ''gerrit'') 0
        (Some False) (Some [SetRemoteAsDefault])))
   \<and> RemoteProviderPicker_show ''Open on Remote'' ''Choose a remote'' 0
     [exampleGitRemote ''origin'' True ''gerrit'']
     (Some \<lparr> autoPick = Given (Pick True), clipboard = Given True, setDefault = Given False \<rparr>)
   = Resolved (Some (CopyOrOpenRemoteCommandQuickPickItem (exampleGitRemote ''origin'' True ''gerrit'') 0
        (Some True) None))
   \<and> RemoteProviderPicker_show ''Open on Remote'' ''Choose a remote'' 0
     [exampleGitRemote ''origin'' True ''gerrit'']
     (Some \<lparr> autoPick = Given (Pick False), clipboard = Absent, setDefault = Absent \<rparr>)
   = Presenting
       \<lparr> qp_title = ''Open on Remote'', qp_placeholder = ''Choose a remote'',
         qp_items = [CopyOrOpenRemoteCommandQuickPickItem (exampleGitRemote ''origin'' True ''gerrit'') 0
                       (Some False) (Some [SetRemoteAsDefault])] \<rparr>"
proof -
  let ?o = "exampleGitRemote ''origin'' False ''gerrit''"
  let ?u = "exampleGitRemote ''upstream'' True ''gerrit''"
  let ?d = "exampleGitRemote ''origin'' True ''gerrit''"
  let ?opts1 = "\<lparr> autoPick = Given Default, clipboard = Absent, setDefault = Absent \<rparr>"
  let ?opts2 = "\<lparr> autoPick = Given (Pick True), clipboard = Given True, setDefault = Given False \<rparr>"
  let ?opts3 = "\<lparr> autoPick = Given (Pick False), clipboard = Absent, setDefault = Absent \<rparr>"
  have 1: "autoPick ?opts1 = Given Default \<and> 1 < length [?o, ?u] \<and> find default [?o, ?u] = Some ?u"
    by (simp add: exampleGitRemote_def)
  have 2: "autoPick ?opts2 = Given (Pick True)"
    by simp
  have 3: "autoPick ?opts3 = Given (Pick False) \<or> autoPick ?opts3 = Absent"
    by simp
  from 1 autoPick_modes [of ?opts1 "[?o, ?u]" ?u "''Open on Remote''" "''Choose a remote''" 0]
  have "RemoteProviderPicker_show ''Open on Remote'' ''Choose a remote'' 0 [?o, ?u] (Some ?opts1)
        = Resolved (Some (CopyOrOpenRemoteCommandQuickPickItem ?u 0 (Some False) (Some [SetRemoteAsDefault])))"
    by (simp add: spread_def)
  moreover from 2 autoPick_modes [of ?opts2 "[?d]" ?d "''Open on Remote''" "''Choose a remote''" 0]
  have "RemoteProviderPicker_show ''Open on Remote'' ''Choose a remote'' 0 [?d] (Some ?opts2)
        = Resolved (Some (CopyOrOpenRemoteCommandQuickPickItem ?d 0 (Some True) None))"
    by (simp add: spread_def)
  moreover from 3 autoPick_modes [of ?opts3 "[?d]" ?d "''Open on Remote''" "''Choose a remote''" 0]
  have "RemoteProviderPicker_show ''Open on Remote'' ''Choose a remote'' 0 [?d] (Some ?opts3)
        = Presenting
            \<lparr> qp_title = ''Open on Remote'', qp_placeholder = ''Choose a remote'',
              qp_items = [CopyOrOpenRemoteCommandQuickPickItem ?d 0 (Some False) (Some [SetRemoteAsDefault])] \<rparr>"
    by (simp add: spread_def)
  ultimately show ?thesis by simp
qed

end
